theory Spec2Isabelle
  imports Complex_Main "HOL-Library.AList"
begin

section \<open>Python values, errors and the operating system seen by pslogtools\<close>

text \<open>
  The values that \<open>pslogtools/__init__.py\<close> puts into its result dictionaries. A Python
  dict is an association list with unique keys: \<open>d[k] = v\<close> is \<open>AList.update k v d\<close>, a
  dict literal is the list of its items, the keys are \<open>fst ` set d\<close>. Floats are only
  carried from psutil to the output, never computed with, and are kept as rationals.
\<close>

datatype pykey = KInt int | KStr string

datatype pyval =
    PInt int
  | PFloat rat
  | PStr string
  | PList "pyval list"
  | PDict "(pykey \<times> pyval) list"

text \<open>
  Every exception the module raises or lets through: its own two classes,
  \<open>sys.exit(msg)\<close>, the \<open>AttributeError\<close> of a deleted method (carrying the attribute
  name), the \<open>SyntaxError\<close> of \<open>metlog_procinfo\<close> (carrying the leftover configuration
  that its message prints), the \<open>ValueError\<close> of \<open>json.loads\<close>, and psutil's
  \<open>NoSuchProcess\<close>.
\<close>

datatype error =
    InvalidPIDError string
  | OSXPermissionFailure string
  | SystemExit string
  | AttributeError string
  | SyntaxError "(string \<times> bool) list"
  | ValueError string
  | NoSuchProcess int

type_synonym 'a result = "error + 'a"

text \<open>What psutil reports about one process (one snapshot per collection).\<close>

datatype socktype = SOCK_STREAM | SOCK_DGRAM | SOCK_RAW | SOCK_RDM | SOCK_SEQPACKET

record connection =
  conn_type :: socktype
  local_address :: "string \<times> int"
  remote_address :: "(string \<times> int) option"
  conn_status :: string

record io_counters =
  read_count :: int
  write_count :: int
  read_bytes :: int
  write_bytes :: int

record meminfo =
  rss :: int
  vms :: int

record cputimes =
  user :: rat
  system :: rat

record thread =
  thread_id :: int
  user_time :: rat
  system_time :: rat

record proc_info =
  p_connections :: "connection list"
  p_io_counters :: io_counters
  p_memory_info :: meminfo
  p_memory_percent :: rat
  p_cpu_times :: cputimes
  p_cpu_percent :: rat
  p_threads :: "thread list"

text \<open>
  The platform and privilege context of one running interpreter: \<open>sys.platform\<close>,
  \<open>os.name\<close>, \<open>os.getuid()\<close>, whether \<open>psutil.Process\<close> has \<open>get_io_counters\<close>,
  \<open>os.getpid()\<close>, the process table psutil reads, and the pid the operating system gives
  to the next child this process spawns.
\<close>

record env =
  sys_platform :: string
  os_name :: string
  getuid :: int
  psutil_has_get_io_counters :: bool
  getpid :: int
  procs :: "int \<Rightarrow> proc_info option"
  spawn_pid :: int

datatype handle = Process int

fun handle_pid :: "handle \<Rightarrow> int" where
  "handle_pid (Process p) = p"

definition psutil_Process :: "env \<Rightarrow> int \<Rightarrow> handle result" where
  "psutil_Process e p = (case procs e p of None \<Rightarrow> Inl (NoSuchProcess p) | Some _ \<Rightarrow> Inr (Process p))"

definition psutil_read :: "env \<Rightarrow> handle \<Rightarrow> (proc_info \<Rightarrow> 'a) \<Rightarrow> 'a result" where
  "psutil_read e h field =
     (case procs e (handle_pid h) of
        None \<Rightarrow> Inl (NoSuchProcess (handle_pid h))
      | Some info \<Rightarrow> Inr (field info))"

section \<open>Strings\<close>

text \<open>\<open>sub in s\<close> on Python strings.\<close>

fun startswith :: "string \<Rightarrow> string \<Rightarrow> bool" where
  "startswith s [] = True"
| "startswith [] (p # ps) = False"
| "startswith (c # cs) (p # ps) = (c = p \<and> startswith cs ps)"

fun contains :: "string \<Rightarrow> string \<Rightarrow> bool" where
  "contains [] sub = (sub = [])"
| "contains (c # cs) sub = (startswith (c # cs) sub \<or> contains cs sub)"

text \<open>\<open>str(n)\<close> of an integer, as \<open>%s\<close> formats a port number.\<close>

definition digit_char :: "nat \<Rightarrow> char" where
  "digit_char d = ''0123456789'' ! d"

function str_nat :: "nat \<Rightarrow> string" where
  "str_nat n = (if n < 10 then [digit_char n] else str_nat (n div 10) @ [digit_char (n mod 10)])"
  by pat_completeness auto
termination
proof (relation "measure id")
  show "wf (measure id)" by simp
next
  fix n :: nat
  assume "\<not> n < 10"
  then have "n div 10 < n" by simp
  then show "(n div 10, n) \<in> measure id" by simp
qed

declare str_nat.simps [simp del]

definition str_int :: "int \<Rightarrow> string" where
  "str_int i = (if i < 0 then CHR ''-'' # str_nat (nat (- i)) else str_nat (nat i))"

text \<open>\<open>'%s:%s' % (a, b)\<close> once both arguments are strings.\<close>

definition colon_join :: "string \<Rightarrow> string \<Rightarrow> string" where
  "colon_join a b = a @ '':'' @ b"

section \<open>Capability probes\<close>

definition check_osx_perm :: "env \<Rightarrow> bool" where
  "check_osx_perm e = (\<not> contains (sys_platform e) ''darwin'' \<or> getuid e = 0)"

definition supports_iocounters :: "env \<Rightarrow> bool" where
  "supports_iocounters e =
     (if \<not> psutil_has_get_io_counters e \<or> os_name e \<noteq> ''posix'' then False else True)"

section \<open>Actions on the inspector: a result and the inspector afterwards\<close>

type_synonym ('s, 'a) action = "'s \<Rightarrow> 'a result \<times> 's"

definition returns :: "'a \<Rightarrow> ('s, 'a) action" where
  "returns x s = (Inr x, s)"

definition raises :: "error \<Rightarrow> ('s, 'a) action" where
  "raises err s = (Inl err, s)"

definition lift :: "'a result \<Rightarrow> ('s, 'a) action" where
  "lift r s = (r, s)"

definition and_then :: "('s, 'a) action \<Rightarrow> ('a \<Rightarrow> ('s, 'b) action) \<Rightarrow> ('s, 'b) action" where
  "and_then m f s = (case m s of (Inl err, s') \<Rightarrow> (Inl err, s') | (Inr x, s') \<Rightarrow> f x s')"

section \<open>class LazyPSUtil\<close>

text \<open>
  The class is the set of attribute names it still defines: \<open>del self.__class__.name\<close>
  removes one and raises \<open>AttributeError\<close> when the name is not there; calling a method
  whose name is gone raises \<open>AttributeError\<close> as well. An instance has \<open>pid\<close> and
  \<open>_process\<close> (here \<open>cached_process\<close>).
\<close>

definition LazyPSUtil_class :: "string set" where
  "LazyPSUtil_class =
     {''POLL_INTERVAL'', ''__init__'', ''process'', ''get_connections'', ''get_io_counters'',
      ''get_memory_info'', ''get_cpu_info'', ''get_thread_cpuinfo'', ''write_json''}"

record LazyPSUtil =
  pid :: int
  cached_process :: "handle option"

definition del_attr :: "string \<Rightarrow> string set \<Rightarrow> string set result" where
  "del_attr name cls = (if name \<in> cls then Inr (cls - {name}) else Inl (AttributeError name))"

definition call_method :: "string set \<Rightarrow> string \<Rightarrow> ('s, 'a) action \<Rightarrow> ('s, 'a) action" where
  "call_method cls name body = (if name \<in> cls then body else raises (AttributeError name))"

text \<open>
  \<open>__init__\<close>: the new instance or the exception, and the class as the constructor
  leaves it (a deletion that happened stays, also when a later one raises).
\<close>

definition LazyPSUtil_init :: "env \<Rightarrow> string set \<Rightarrow> int \<Rightarrow> LazyPSUtil result \<times> string set" where
  "LazyPSUtil_init e cls p =
     (case (if \<not> supports_iocounters e then del_attr ''get_io_counters'' cls else Inr cls) of
        Inl err \<Rightarrow> (Inl err, cls)
      | Inr cls1 \<Rightarrow>
          if \<not> check_osx_perm e then
            (case del_attr ''get_cpu_info'' cls1 of
               Inl err \<Rightarrow> (Inl err, cls1)
             | Inr cls2 \<Rightarrow>
                 (case del_attr ''get_memory_info'' cls2 of
                    Inl err \<Rightarrow> (Inl err, cls2)
                  | Inr cls3 \<Rightarrow>
                      (case del_attr ''get_thread_cpuinfo'' cls3 of
                         Inl err \<Rightarrow> (Inl err, cls3)
                       | Inr cls4 \<Rightarrow> (Inr \<lparr>pid = p, cached_process = None\<rparr>, cls4))))
          else (Inr \<lparr>pid = p, cached_process = None\<rparr>, cls1))"

text \<open>
  The \<open>process\<close> property. \<open>self._process\<close> is assigned before the pid is compared with
  \<open>os.getpid()\<close>, so the instance that comes back with the \<open>InvalidPIDError\<close> already
  holds the handle.
\<close>

definition process :: "env \<Rightarrow> (LazyPSUtil, handle) action" where
  "process e self =
     (case cached_process self of
        None \<Rightarrow>
          (case psutil_Process e (pid self) of
             Inl err \<Rightarrow> (Inl err, self)
           | Inr h \<Rightarrow>
               (let self' = self\<lparr>cached_process := Some h\<rparr> in
                if getpid e = pid self'
                then (Inl (InvalidPIDError ''Can't run process inspection on itself''), self')
                else (Inr h, self')))
      | Some h \<Rightarrow> (Inr h, self))"

text \<open>The body of the loop of \<open>get_connections\<close>, and the loop appending to \<open>connections\<close>.\<close>

definition connection_entry :: "connection \<Rightarrow> pyval" where
  "connection_entry conn =
     (let type = (if conn_type conn = SOCK_STREAM then ''TCP''
                  else if conn_type conn = SOCK_DGRAM then ''UDP''
                  else ''UNIX'');
          (lip, lport) = local_address conn;
          (rip, rport) = (case remote_address conn of
                            None \<Rightarrow> (''*'', ''*'')
                          | Some (ip, port) \<Rightarrow> (ip, str_int port))
      in PDict [(KStr ''type'', PStr type),
                (KStr ''status'', PStr (conn_status conn)),
                (KStr ''local'', PStr (colon_join lip (str_int lport))),
                (KStr ''remote'', PStr (colon_join rip rport))])"

fun connections_loop :: "connection list \<Rightarrow> pyval list \<Rightarrow> pyval list" where
  "connections_loop [] connections = connections"
| "connections_loop (conn # rest) connections =
     connections_loop rest (connections @ [connection_entry conn])"

definition get_connections :: "env \<Rightarrow> (LazyPSUtil, pyval) action" where
  "get_connections e =
     and_then (process e) (\<lambda>p.
     and_then (lift (psutil_read e p p_connections)) (\<lambda>conns.
     returns (PList (connections_loop conns []))))"

definition get_io_counters :: "env \<Rightarrow> (LazyPSUtil, pyval) action" where
  "get_io_counters e =
     (if \<not> supports_iocounters e then raises (SystemExit ''platform not supported'')
      else
        and_then (process e) (\<lambda>p.
        and_then (lift (psutil_read e p p_io_counters)) (\<lambda>io.
        returns (PDict [(KStr ''read_bytes'', PInt (read_bytes io)),
                        (KStr ''write_bytes'', PInt (write_bytes io)),
                        (KStr ''read_count'', PInt (read_count io)),
                        (KStr ''write_count'', PInt (write_count io))]))))"

definition get_memory_info :: "env \<Rightarrow> (LazyPSUtil, pyval) action" where
  "get_memory_info e =
     (if \<not> check_osx_perm e then raises (OSXPermissionFailure ''OSX requires root for memory info'')
      else
        and_then (process e) (\<lambda>p1.
        and_then (lift (psutil_read e p1 p_cpu_times)) (\<lambda>cputimes.
        and_then (process e) (\<lambda>p2.
        and_then (lift (psutil_read e p2 p_memory_info)) (\<lambda>meminfo.
        and_then (process e) (\<lambda>p3.
        and_then (lift (psutil_read e p3 p_memory_percent)) (\<lambda>pcnt.
        returns (PDict [(KStr ''pcnt'', PFloat pcnt),
                        (KStr ''rss'', PInt (rss meminfo)),
                        (KStr ''vms'', PFloat (system cputimes))]))))))))"

definition get_cpu_info :: "env \<Rightarrow> (LazyPSUtil, pyval) action" where
  "get_cpu_info e =
     (if \<not> check_osx_perm e then raises (OSXPermissionFailure ''OSX requires root for memory info'')
      else
        and_then (process e) (\<lambda>p1.
        and_then (lift (psutil_read e p1 p_cpu_times)) (\<lambda>cputimes.
        and_then (process e) (\<lambda>p2.
        and_then (lift (psutil_read e p2 p_cpu_percent)) (\<lambda>cpu_pcnt.
        returns (PDict [(KStr ''cpu_pcnt'', PFloat cpu_pcnt),
                        (KStr ''cpu_user'', PFloat (user cputimes)),
                        (KStr ''cpu_sys'', PFloat (system cputimes))]))))))"

fun threads_loop :: "thread list \<Rightarrow> (pykey \<times> pyval) list \<Rightarrow> (pykey \<times> pyval) list" where
  "threads_loop [] thread_details = thread_details"
| "threads_loop (t # rest) thread_details =
     threads_loop rest
       (AList.update (KInt (thread_id t))
          (PDict [(KStr ''sys'', PFloat (system_time t)), (KStr ''user'', PFloat (user_time t))])
          thread_details)"

definition get_thread_cpuinfo :: "env \<Rightarrow> (LazyPSUtil, pyval) action" where
  "get_thread_cpuinfo e =
     (if \<not> check_osx_perm e then raises (OSXPermissionFailure ''OSX requires root for memory info'')
      else
        and_then (process e) (\<lambda>p.
        and_then (lift (psutil_read e p p_threads)) (\<lambda>ts.
        returns (PDict (threads_loop ts [])))))"

record flags =
  net :: bool
  io :: bool
  cpu :: bool
  mem :: bool
  threads :: bool

text \<open>
  One \<open>if flag: data[name] = self.method()\<close> of \<open>write_json\<close>, and \<open>write_json\<close>
  itself; its value is the dictionary it hands to \<open>json.dumps\<close> and writes to stdout.
\<close>

definition collect_into ::
  "string set \<Rightarrow> bool \<Rightarrow> string \<Rightarrow> string \<Rightarrow> (LazyPSUtil, pyval) action \<Rightarrow>
   (pykey \<times> pyval) list \<Rightarrow> (LazyPSUtil, (pykey \<times> pyval) list) action" where
  "collect_into cls flag name meth body data =
     (if flag
      then and_then (call_method cls meth body) (\<lambda>v. returns (AList.update (KStr name) v data))
      else returns data)"

definition write_json :: "env \<Rightarrow> string set \<Rightarrow> flags \<Rightarrow> (LazyPSUtil, pyval) action" where
  "write_json e cls fl =
     and_then (collect_into cls (net fl) ''net'' ''get_connections'' (get_connections e) []) (\<lambda>d1.
     and_then (collect_into cls (io fl) ''io'' ''get_io_counters'' (get_io_counters e) d1) (\<lambda>d2.
     and_then (collect_into cls (cpu fl) ''cpu'' ''get_cpu_info'' (get_cpu_info e) d2) (\<lambda>d3.
     and_then (collect_into cls (mem fl) ''mem'' ''get_memory_info'' (get_memory_info e) d3) (\<lambda>d4.
     and_then (collect_into cls (threads fl) ''threads'' ''get_thread_cpuinfo'' (get_thread_cpuinfo e) d4) (\<lambda>d5.
     returns (PDict d5))))))"

section \<open>The worker process and process\_details\<close>

text \<open>
  What \<open>Popen(...).communicate()\<close> gives back from the child that runs
  \<open>LazyPSUtil(pid).write_json(...)\<close> in a fresh interpreter (the class is whole again):
  the documents written to stdout, the uncaught exception the interpreter reported on
  stderr, and the exit status. An uncaught exception, \<open>SystemExit\<close> with a message
  included, ends the child with status 1 before anything is written.
\<close>

record completed =
  stdout :: "pyval list"
  stderr :: "error option"
  returncode :: int

definition worker :: "env \<Rightarrow> int \<Rightarrow> flags \<Rightarrow> completed" where
  "worker e p fl =
     (case LazyPSUtil_init e LazyPSUtil_class p of
        (Inl err, cls) \<Rightarrow> \<lparr>stdout = [], stderr = Some err, returncode = 1\<rparr>
      | (Inr self, cls) \<Rightarrow>
          (case write_json e cls fl self of
             (Inl err, self') \<Rightarrow> \<lparr>stdout = [], stderr = Some err, returncode = 1\<rparr>
           | (Inr data, self') \<Rightarrow> \<lparr>stdout = [data], stderr = None, returncode = 0\<rparr>))"

text \<open>
  \<open>json.loads\<close> of what \<open>json.dumps\<close> wrote: the text encoding is the standard
  library's and is not modelled, the channel carries the documents. Decoding gives the
  document back with the integer keys of its dictionaries as strings; no document, or
  more than one, is a \<open>ValueError\<close>.
\<close>

fun json_key :: "pykey \<Rightarrow> pykey" where
  "json_key (KInt i) = KStr (str_int i)"
| "json_key (KStr s) = KStr s"

primrec json_roundtrip :: "pyval \<Rightarrow> pyval" where
  "json_roundtrip (PInt i) = PInt i"
| "json_roundtrip (PFloat f) = PFloat f"
| "json_roundtrip (PStr s) = PStr s"
| "json_roundtrip (PList xs) = PList (map json_roundtrip xs)"
| "json_roundtrip (PDict kvs) = PDict (map (map_prod json_key json_roundtrip) kvs)"

fun json_loads :: "pyval list \<Rightarrow> pyval result" where
  "json_loads [] = Inl (ValueError ''No JSON object could be decoded'')"
| "json_loads [doc] = Inr (json_roundtrip doc)"
| "json_loads (doc # doc2 # rest) = Inl (ValueError ''Extra data'')"

text \<open>
  The effects the callers can see: the children launched so far (target pid and flags of
  each command line) and the calls made on the metlog client.
\<close>

record world =
  launched :: "(int \<times> flags) list"
  metlog_calls :: "(string \<times> pyval) list"

text \<open>\<open>if pid is None: pid = os.getpid()\<close>, as both entry points begin.\<close>

definition default_pid :: "env \<Rightarrow> int option \<Rightarrow> int" where
  "default_pid e pid_arg = (case pid_arg of None \<Rightarrow> getpid e | Some given \<Rightarrow> given)"

definition process_details :: "env \<Rightarrow> world \<Rightarrow> int option \<Rightarrow> flags \<Rightarrow> pyval result \<times> world" where
  "process_details e w pid_arg fl =
     (let p = default_pid e pid_arg;
          proc = worker (e\<lparr>getpid := spawn_pid e\<rparr>) p fl;
          w' = w\<lparr>launched := launched w @ [(p, fl)]\<rparr>
      in (json_loads (stdout proc), w'))"

section \<open>metlog\_procinfo\<close>

text \<open>\<open>config.pop(key, False)\<close>: the value and the dictionary without the key.\<close>

definition pop :: "string \<Rightarrow> (string \<times> bool) list \<Rightarrow> bool \<times> (string \<times> bool) list" where
  "pop key config =
     ((case map_of config key of None \<Rightarrow> False | Some v \<Rightarrow> v), AList.delete key config)"

text \<open>
  The outcome, the caller's \<open>config\<close> dictionary as the call leaves it, and the world.
\<close>

definition metlog_procinfo ::
  "env \<Rightarrow> world \<Rightarrow> int option \<Rightarrow> (string \<times> bool) list \<Rightarrow>
   unit result \<times> (string \<times> bool) list \<times> world" where
  "metlog_procinfo e w pid_arg config =
     (let p = default_pid e pid_arg;
          (net_v, c1) = pop ''net'' config;
          (io_v, c2) = pop ''io'' c1;
          (cpu_v, c3) = pop ''cpu'' c2;
          (mem_v, c4) = pop ''mem'' c3;
          (threads_v, c5) = pop ''threads'' c4
      in if c5 \<noteq> [] then (Inl (SyntaxError c5), c5, w)
         else
           (case process_details e w (Some p)
                   \<lparr>net = net_v, io = io_v, cpu = cpu_v, mem = mem_v, threads = threads_v\<rparr> of
              (Inl err, w') \<Rightarrow> (Inl err, c5, w')
            | (Inr procinfo_fields, w') \<Rightarrow>
                (Inr (), c5, w'\<lparr>metlog_calls := metlog_calls w' @ [(''procinfo'', procinfo_fields)]\<rparr>)))"

section \<open>Notions used to state the properties\<close>

text \<open>
  An instance is bound to \<open>p\<close> when it is as \<open>__init__\<close> and \<open>process\<close> leave an
  inspector of \<open>p\<close>: nothing cached yet, or the handle of \<open>p\<close>.
\<close>

definition bound_to :: "int \<Rightarrow> LazyPSUtil \<Rightarrow> bool" where
  "bound_to p self =
     (pid self = p \<and> (cached_process self = None \<or> cached_process self = Some (Process p)))"

text \<open>
  The categories a call asks for, the probe that \<open>__init__\<close> consults before it deletes
  the method of a category, and the class as the first construction in a fresh
  interpreter leaves it.
\<close>

definition requested :: "flags \<Rightarrow> string set" where
  "requested fl =
     (if net fl then {''net''} else {}) \<union> (if io fl then {''io''} else {}) \<union>
     (if cpu fl then {''cpu''} else {}) \<union> (if mem fl then {''mem''} else {}) \<union>
     (if threads fl then {''threads''} else {})"

definition gate :: "env \<Rightarrow> string \<Rightarrow> bool" where
  "gate e category =
     (if category = ''io'' then supports_iocounters e
      else if category \<in> {''cpu'', ''mem'', ''threads''} then check_osx_perm e
      else True)"

definition supported_requested :: "env \<Rightarrow> flags \<Rightarrow> string set" where
  "supported_requested e fl = Set.filter (gate e) (requested fl)"

definition gated_class :: "env \<Rightarrow> string set" where
  "gated_class e =
     LazyPSUtil_class
       - (if supports_iocounters e then {} else {''get_io_counters''})
       - (if check_osx_perm e then {} else {''get_cpu_info'', ''get_memory_info'', ''get_thread_cpuinfo''})"

text \<open>
  The five keys \<open>metlog_procinfo\<close> pops, the value \<open>config.pop(key, False)\<close> hands
  out, and the items the five pops leave in the dictionary.
\<close>

definition recognized :: "string set" where
  "recognized = {''net'', ''io'', ''cpu'', ''mem'', ''threads''}"

definition config_flag :: "(string \<times> bool) list \<Rightarrow> string \<Rightarrow> bool" where
  "config_flag config key = (case map_of config key of None \<Rightarrow> False | Some v \<Rightarrow> v)"

definition leftover :: "(string \<times> bool) list \<Rightarrow> (string \<times> bool) list" where
  "leftover config = filter (\<lambda>kv. fst kv \<notin> recognized) config"

text \<open>
  \<open>n\<close> successive reads of \<open>self.process\<close> by a caller that catches what each one
  raises: the outcomes in order, and the instance afterwards.
\<close>

fun accesses :: "env \<Rightarrow> nat \<Rightarrow> LazyPSUtil \<Rightarrow> handle result list \<times> LazyPSUtil" where
  "accesses e 0 self = ([], self)"
| "accesses e (Suc n) self =
     (case process e self of (r, self') \<Rightarrow>
        (case accesses e n self' of (rs, self'') \<Rightarrow> (r # rs, self'')))"

section \<open>Example machines\<close>

text \<open>
  A process with one listening TCP socket on 127.0.0.1:50007, as the repository's tests
  set up, on a Linux machine, on OS X without root, and on a BSD whose psutil has no I/O
  counters. Process 4242 is the caller, 4243 the child it spawns next.
\<close>

definition listening_proc :: proc_info where
  "listening_proc =
     \<lparr>p_connections =
        [\<lparr>conn_type = SOCK_STREAM, local_address = (''127.0.0.1'', 50007),
          remote_address = None, conn_status = ''LISTEN''\<rparr>],
      p_io_counters = \<lparr>read_count = 12, write_count = 7, read_bytes = 4096, write_bytes = 512\<rparr>,
      p_memory_info = \<lparr>rss = 8192000, vms = 40960000\<rparr>,
      p_memory_percent = 3 / 2,
      p_cpu_times = \<lparr>user = 1 / 4, system = 1 / 8\<rparr>,
      p_cpu_percent = 5 / 2,
      p_threads = [\<lparr>thread_id = 4242, user_time = 1 / 4, system_time = 1 / 8\<rparr>]\<rparr>"

definition process_table :: "int \<Rightarrow> proc_info option" where
  "process_table = (\<lambda>p. if p = 4242 \<or> p = 4243 then Some listening_proc else None)"

definition linux_env :: env where
  "linux_env =
     \<lparr>sys_platform = ''linux2'', os_name = ''posix'', getuid = 1000,
      psutil_has_get_io_counters = True, getpid = 4242,
      procs = process_table, spawn_pid = 4243\<rparr>"

definition osx_user_env :: env where
  "osx_user_env =
     \<lparr>sys_platform = ''darwin'', os_name = ''posix'', getuid = 501,
      psutil_has_get_io_counters = False, getpid = 4242,
      procs = process_table, spawn_pid = 4243\<rparr>"

definition bsd_env :: env where
  "bsd_env =
     \<lparr>sys_platform = ''freebsd8'', os_name = ''posix'', getuid = 1000,
      psutil_has_get_io_counters = False, getpid = 4242,
      procs = process_table, spawn_pid = 4243\<rparr>"

definition quiet_world :: world where
  "quiet_world = \<lparr>launched = [], metlog_calls = []\<rparr>"

section \<open>Auxiliary facts\<close>

lemma process_resolves:
  assumes "bound_to p self" "procs e p = Some info" "getpid e \<noteq> p"
  shows "process e self = (Inr (Process p), self\<lparr>cached_process := Some (Process p)\<rparr>)"
  using assms by (auto simp: process_def bound_to_def psutil_Process_def Let_def)

lemma bound_to_cached: "bound_to p self \<Longrightarrow> bound_to p (self\<lparr>cached_process := Some (Process p)\<rparr>)"
  by (simp add: bound_to_def)

lemma read_via_process:
  assumes "bound_to p self" "procs e p = Some info" "getpid e \<noteq> p"
  shows "and_then (process e) (\<lambda>h. and_then (lift (psutil_read e h field)) f) self
         = f (field info) (self\<lparr>cached_process := Some (Process p)\<rparr>)"
  using assms by (simp add: process_resolves and_then_def lift_def psutil_read_def)

lemma get_connections_ok:
  assumes "bound_to p self" "procs e p = Some info" "getpid e \<noteq> p"
  shows "get_connections e self =
     (Inr (PList (connections_loop (p_connections info) [])), self\<lparr>cached_process := Some (Process p)\<rparr>)"
  unfolding get_connections_def
  by (simp add: read_via_process[OF assms] returns_def)

lemma get_io_counters_ok:
  assumes "bound_to p self" "procs e p = Some info" "getpid e \<noteq> p" "supports_iocounters e"
  shows "\<exists>v. get_io_counters e self = (Inr v, self\<lparr>cached_process := Some (Process p)\<rparr>)"
  unfolding get_io_counters_def
  using assms(4) by (simp add: read_via_process[OF assms(1-3)] returns_def)

lemma get_memory_info_ok:
  assumes "bound_to p self" "procs e p = Some info" "getpid e \<noteq> p" "check_osx_perm e"
  shows "get_memory_info e self =
    (Inr (PDict [(KStr ''pcnt'', PFloat (p_memory_percent info)),
                        (KStr ''rss'', PInt (rss (p_memory_info info))),
                        (KStr ''vms'', PFloat (system (p_cpu_times info)))]), self\<lparr>cached_process := Some (Process p)\<rparr>)"
proof -
  let ?s = "self\<lparr>cached_process := Some (Process p)\<rparr>"
  have b: "bound_to p ?s" using assms(1) by (rule bound_to_cached)
  have s: "?s\<lparr>cached_process := Some (Process p)\<rparr> = ?s" by simp
  show ?thesis
    unfolding get_memory_info_def
    using assms(4)
    by (simp add: read_via_process[OF assms(1-3)] read_via_process[OF b assms(2,3)] returns_def)
qed

lemma get_cpu_info_ok:
  assumes "bound_to p self" "procs e p = Some info" "getpid e \<noteq> p" "check_osx_perm e"
  shows "\<exists>v. get_cpu_info e self = (Inr v, self\<lparr>cached_process := Some (Process p)\<rparr>)"
proof -
  let ?s = "self\<lparr>cached_process := Some (Process p)\<rparr>"
  have b: "bound_to p ?s" using assms(1) by (rule bound_to_cached)
  show ?thesis
    unfolding get_cpu_info_def
    using assms(4)
    by (simp add: read_via_process[OF assms(1-3)] read_via_process[OF b assms(2,3)] returns_def)
qed

lemma get_thread_cpuinfo_ok:
  assumes "bound_to p self" "procs e p = Some info" "getpid e \<noteq> p" "check_osx_perm e"
  shows "\<exists>v. get_thread_cpuinfo e self = (Inr v, self\<lparr>cached_process := Some (Process p)\<rparr>)"
  unfolding get_thread_cpuinfo_def
  using assms(4) by (simp add: read_via_process[OF assms(1-3)] returns_def)

lemma init_fresh:
  "LazyPSUtil_init e LazyPSUtil_class p =
     (Inr \<lparr>pid = p, cached_process = None\<rparr>,
      LazyPSUtil_class
        - (if supports_iocounters e then {} else {''get_io_counters''})
        - (if check_osx_perm e then {} else {''get_cpu_info'', ''get_memory_info'', ''get_thread_cpuinfo''}))"
  by (auto simp: LazyPSUtil_init_def LazyPSUtil_class_def del_attr_def)

lemma collect_into_skip: "collect_into cls False name meth body data self = (Inr data, self)"
  by (simp add: collect_into_def returns_def)

lemma collect_into_ok:
  assumes "meth \<in> cls" "body self = (Inr v, self')"
  shows "collect_into cls True name meth body data self = (Inr (AList.update (KStr name) v data), self')"
  using assms by (simp add: collect_into_def call_method_def and_then_def returns_def)

lemma collect_into_missing:
  assumes "meth \<notin> cls"
  shows "collect_into cls True name meth body data self = (Inl (AttributeError meth), self)"
  using assms by (simp add: collect_into_def call_method_def and_then_def raises_def)

lemma and_then_fails_first: "isl (fst (m s)) \<Longrightarrow> isl (fst (and_then m f s))"
  by (cases "m s") (auto simp: and_then_def split: sum.splits)

lemma and_then_fails_later: "(\<And>x s'. isl (fst (f x s'))) \<Longrightarrow> isl (fst (and_then m f s))"
  by (cases "m s") (auto simp: and_then_def split: sum.splits)

lemma collect_into_step:
  assumes b: "bound_to p self"
    and f: "flag \<longrightarrow> meth \<in> cls \<and> (\<exists>v. body self = (Inr v, self\<lparr>cached_process := Some (Process p)\<rparr>))"
  shows "\<exists>d' self'. collect_into cls flag name meth body data self = (Inr d', self')
           \<and> bound_to p self'
           \<and> fst ` set d' = (if flag then {KStr name} else {}) \<union> fst ` set data"
proof (cases flag)
  case False
  then show ?thesis using b by (simp add: collect_into_skip)
next
  case True
  with f obtain v where m: "meth \<in> cls"
    and v: "body self = (Inr v, self\<lparr>cached_process := Some (Process p)\<rparr>)" by blast
  have "collect_into cls True name meth body data self
          = (Inr (AList.update (KStr name) v data), self\<lparr>cached_process := Some (Process p)\<rparr>)"
    using m v by (rule collect_into_ok)
  then show ?thesis using True b by (simp add: bound_to_cached dom_update)
qed

lemma write_json_ok:
  assumes b: "bound_to p self" and i: "procs e p = Some info" and n: "getpid e \<noteq> p"
    and c1: "net fl \<Longrightarrow> ''get_connections'' \<in> cls"
    and c2: "io fl \<Longrightarrow> ''get_io_counters'' \<in> cls \<and> supports_iocounters e"
    and c3: "cpu fl \<Longrightarrow> ''get_cpu_info'' \<in> cls \<and> check_osx_perm e"
    and c4: "mem fl \<Longrightarrow> ''get_memory_info'' \<in> cls \<and> check_osx_perm e"
    and c5: "threads fl \<Longrightarrow> ''get_thread_cpuinfo'' \<in> cls \<and> check_osx_perm e"
  shows "\<exists>d self'. write_json e cls fl self = (Inr (PDict d), self')
           \<and> fst ` set d = KStr ` requested fl"
proof -
  have p1: "net fl \<longrightarrow> ''get_connections'' \<in> cls \<and> (\<exists>v. get_connections e self = (Inr v, self\<lparr>cached_process := Some (Process p)\<rparr>))"
    using c1 get_connections_ok[OF b i n] by blast
  obtain d1 s1 where
    r1: "collect_into cls (net fl) ''net'' ''get_connections'' (get_connections e) [] self = (Inr d1, s1)"
    and b1: "bound_to p s1"
    and k1: "fst ` set d1 = (if net fl then {KStr ''net''} else {}) \<union> fst ` set ([] :: (pykey \<times> pyval) list)"
    using collect_into_step[where body = "get_connections e" and name = "''net''" and data = "[]", OF b p1]
    by (elim exE conjE)
  have p2: "io fl \<longrightarrow> ''get_io_counters'' \<in> cls \<and> (\<exists>v. get_io_counters e s1 = (Inr v, s1\<lparr>cached_process := Some (Process p)\<rparr>))"
    using c2 get_io_counters_ok[OF b1 i n] by blast
  obtain d2 s2 where
    r2: "collect_into cls (io fl) ''io'' ''get_io_counters'' (get_io_counters e) d1 s1 = (Inr d2, s2)"
    and b2: "bound_to p s2"
    and k2: "fst ` set d2 = (if io fl then {KStr ''io''} else {}) \<union> fst ` set d1"
    using collect_into_step[where body = "get_io_counters e" and name = "''io''" and data = d1, OF b1 p2]
    by (elim exE conjE)
  have p3: "cpu fl \<longrightarrow> ''get_cpu_info'' \<in> cls \<and> (\<exists>v. get_cpu_info e s2 = (Inr v, s2\<lparr>cached_process := Some (Process p)\<rparr>))"
    using c3 get_cpu_info_ok[OF b2 i n] by blast
  obtain d3 s3 where
    r3: "collect_into cls (cpu fl) ''cpu'' ''get_cpu_info'' (get_cpu_info e) d2 s2 = (Inr d3, s3)"
    and b3: "bound_to p s3"
    and k3: "fst ` set d3 = (if cpu fl then {KStr ''cpu''} else {}) \<union> fst ` set d2"
    using collect_into_step[where body = "get_cpu_info e" and name = "''cpu''" and data = d2, OF b2 p3]
    by (elim exE conjE)
  have p4: "mem fl \<longrightarrow> ''get_memory_info'' \<in> cls \<and> (\<exists>v. get_memory_info e s3 = (Inr v, s3\<lparr>cached_process := Some (Process p)\<rparr>))"
    using c4 get_memory_info_ok[OF b3 i n] by blast
  obtain d4 s4 where
    r4: "collect_into cls (mem fl) ''mem'' ''get_memory_info'' (get_memory_info e) d3 s3 = (Inr d4, s4)"
    and b4: "bound_to p s4"
    and k4: "fst ` set d4 = (if mem fl then {KStr ''mem''} else {}) \<union> fst ` set d3"
    using collect_into_step[where body = "get_memory_info e" and name = "''mem''" and data = d3, OF b3 p4]
    by (elim exE conjE)
  have p5: "threads fl \<longrightarrow> ''get_thread_cpuinfo'' \<in> cls \<and> (\<exists>v. get_thread_cpuinfo e s4 = (Inr v, s4\<lparr>cached_process := Some (Process p)\<rparr>))"
    using c5 get_thread_cpuinfo_ok[OF b4 i n] by blast
  obtain d5 s5 where
    r5: "collect_into cls (threads fl) ''threads'' ''get_thread_cpuinfo'' (get_thread_cpuinfo e) d4 s4 = (Inr d5, s5)"
    and b5: "bound_to p s5"
    and k5: "fst ` set d5 = (if threads fl then {KStr ''threads''} else {}) \<union> fst ` set d4"
    using collect_into_step[where body = "get_thread_cpuinfo e" and name = "''threads''" and data = d4, OF b4 p5]
    by (elim exE conjE)
  have w: "write_json e cls fl self = (Inr (PDict d5), s5)"
    unfolding write_json_def
    by (simp add: and_then_def r1 r2 r3 r4 r5 returns_def)
  have k: "fst ` set d5 = KStr ` requested fl"
    unfolding k5 k4 k3 k2 k1 requested_def by auto
  show ?thesis using w k by blast
qed

lemma init_gated:
  "LazyPSUtil_init e LazyPSUtil_class p = (Inr \<lparr>pid = p, cached_process = None\<rparr>, gated_class e)"
  by (simp add: init_fresh gated_class_def)

lemma write_json_fails:
  assumes "(io fl \<and> ''get_io_counters'' \<notin> cls) \<or> (cpu fl \<and> ''get_cpu_info'' \<notin> cls)
         \<or> (mem fl \<and> ''get_memory_info'' \<notin> cls) \<or> (threads fl \<and> ''get_thread_cpuinfo'' \<notin> cls)"
  shows "isl (fst (write_json e cls fl self))"
proof -
  consider (a) "io fl" "''get_io_counters'' \<notin> cls" | (b) "cpu fl" "''get_cpu_info'' \<notin> cls"
    | (c) "mem fl" "''get_memory_info'' \<notin> cls" | (d) "threads fl" "''get_thread_cpuinfo'' \<notin> cls"
    using assms by blast
  then show ?thesis
  proof cases
    case a
    show ?thesis unfolding write_json_def
      by (rule and_then_fails_later, rule and_then_fails_first) (simp add: a collect_into_missing)
  next
    case b
    show ?thesis unfolding write_json_def
      by (rule and_then_fails_later, rule and_then_fails_later, rule and_then_fails_first)
         (simp add: b collect_into_missing)
  next
    case c
    show ?thesis unfolding write_json_def
      by (rule and_then_fails_later, rule and_then_fails_later, rule and_then_fails_later,
          rule and_then_fails_first) (simp add: c collect_into_missing)
  next
    case d
    show ?thesis unfolding write_json_def
      by (rule and_then_fails_later, rule and_then_fails_later, rule and_then_fails_later,
          rule and_then_fails_later, rule and_then_fails_first) (simp add: d collect_into_missing)
  qed
qed

lemma worker_unfold:
  "worker e p fl =
     (case write_json e
             (gated_class e)
             fl \<lparr>pid = p, cached_process = None\<rparr> of
        (Inl err, self') \<Rightarrow> \<lparr>stdout = [], stderr = Some err, returncode = 1\<rparr>
      | (Inr data, self') \<Rightarrow> \<lparr>stdout = [data], stderr = None, returncode = 0\<rparr>)"
  by (simp add: worker_def init_gated)

lemma worker_failed:
  assumes "isl (fst (write_json e
             (gated_class e)
             fl \<lparr>pid = p, cached_process = None\<rparr>))"
  shows "stdout (worker e p fl) = [] \<and> stderr (worker e p fl) \<noteq> None \<and> returncode (worker e p fl) = 1"
  using assms unfolding worker_unfold
  by (cases "write_json e (gated_class e) fl \<lparr>pid = p, cached_process = None\<rparr>")
     (auto split: sum.splits)

lemma worker_gate_failed:
  assumes "\<exists>c\<in>requested fl. \<not> gate e c"
  shows "stdout (worker e p fl) = [] \<and> stderr (worker e p fl) \<noteq> None \<and> returncode (worker e p fl) = 1"
proof (rule worker_failed, rule write_json_fails)
  from assms obtain c where c: "c \<in> requested fl" "\<not> gate e c" by blast
  then show "(io fl \<and> ''get_io_counters'' \<notin> gated_class e) \<or>
    (cpu fl \<and> ''get_cpu_info'' \<notin> gated_class e) \<or>
    (mem fl \<and> ''get_memory_info'' \<notin> gated_class e) \<or>
    (threads fl \<and> ''get_thread_cpuinfo'' \<notin> gated_class e)"
    by (auto simp: requested_def gate_def gated_class_def split: if_splits)
qed

lemma json_roundtrip_keys:
  "fst ` set (map (map_prod json_key json_roundtrip) d) = json_key ` fst ` set d"
  by (induction d) auto

lemma worker_gates_pass:
  assumes i: "procs e p = Some info" and n: "getpid e \<noteq> p"
    and g: "\<forall>c\<in>requested fl. gate e c"
  shows "\<exists>d. worker e p fl = \<lparr>stdout = [PDict d], stderr = None, returncode = 0\<rparr>
           \<and> fst ` set d = KStr ` requested fl"
proof -
  let ?cls = "gated_class e"
  let ?self = "\<lparr>pid = p, cached_process = None\<rparr>"
  have b: "bound_to p ?self" by (simp add: bound_to_def)
  have c1: "net fl \<Longrightarrow> ''get_connections'' \<in> ?cls" by (simp add: LazyPSUtil_class_def gated_class_def)
  have c2: "io fl \<Longrightarrow> ''get_io_counters'' \<in> ?cls \<and> supports_iocounters e"
    using g by (auto simp: requested_def gate_def LazyPSUtil_class_def gated_class_def)
  have c3: "cpu fl \<Longrightarrow> ''get_cpu_info'' \<in> ?cls \<and> check_osx_perm e"
    using g by (auto simp: requested_def gate_def LazyPSUtil_class_def gated_class_def)
  have c4: "mem fl \<Longrightarrow> ''get_memory_info'' \<in> ?cls \<and> check_osx_perm e"
    using g by (auto simp: requested_def gate_def LazyPSUtil_class_def gated_class_def)
  have c5: "threads fl \<Longrightarrow> ''get_thread_cpuinfo'' \<in> ?cls \<and> check_osx_perm e"
    using g by (auto simp: requested_def gate_def LazyPSUtil_class_def gated_class_def)
  from write_json_ok[OF b i n c1 c2 c3 c4 c5]
  obtain d self' where w: "write_json e ?cls fl ?self = (Inr (PDict d), self')"
    and k: "fst ` set d = KStr ` requested fl" by blast
  have "worker e p fl = \<lparr>stdout = [PDict d], stderr = None, returncode = 0\<rparr>"
    unfolding worker_unfold by (simp add: w)
  then show ?thesis using k by blast
qed

lemmas env_defs = linux_env_def osx_user_env_def process_table_def listening_proc_def quiet_world_def

lemmas probe_defs = supports_iocounters_def check_osx_perm_def

lemmas act_defs = and_then_def returns_def raises_def lift_def call_method_def collect_into_def

lemmas op_defs = process_def psutil_Process_def psutil_read_def get_connections_def get_io_counters_def
  get_memory_info_def get_cpu_info_def get_thread_cpuinfo_def connection_entry_def colon_join_def

lemma str_int_50007: "str_int 50007 = ''50007''"
  by (simp add: str_int_def str_nat.simps digit_char_def)

lemma process_details_unfold:
  "process_details e w pid_arg fl =
     (json_loads (stdout (worker (e\<lparr>getpid := spawn_pid e\<rparr>) (default_pid e pid_arg) fl)),
      w\<lparr>launched := launched w @ [(default_pid e pid_arg, fl)]\<rparr>)"
  by (simp add: process_details_def Let_def)

lemma probes_ignore_getpid [simp]:
  "supports_iocounters (e\<lparr>getpid := x\<rparr>) = supports_iocounters e"
  "check_osx_perm (e\<lparr>getpid := x\<rparr>) = check_osx_perm e"
  "gate (e\<lparr>getpid := x\<rparr>) c = gate e c"
  by (simp_all add: supports_iocounters_def check_osx_perm_def gate_def)

lemma io_gate_failed_first:
  assumes "\<not> supports_iocounters e" "io fl" "\<not> net fl"
  shows "write_json e (gated_class e) fl self = (Inl (AttributeError ''get_io_counters''), self)"
proof -
  have m: "''get_io_counters'' \<notin> gated_class e" using assms(1) by (simp add: gated_class_def)
  show ?thesis unfolding write_json_def
    using assms(2,3) by (simp add: and_then_def collect_into_skip collect_into_missing[OF m])
qed

lemma io_gate_failed_error:
  assumes u: "\<not> supports_iocounters e" and r: "io fl"
  shows "fst (write_json e (gated_class e) fl self)
           = Inl (if net fl
                  then (case fst (get_connections e self) of
                          Inl err \<Rightarrow> err
                        | Inr v \<Rightarrow> AttributeError ''get_io_counters'')
                  else AttributeError ''get_io_counters'')"
proof (cases "net fl")
  case False
  then show ?thesis using io_gate_failed_first[OF u r False] by simp
next
  case True
  have m: "''get_io_counters'' \<notin> gated_class e" using u by (simp add: gated_class_def)
  have c: "''get_connections'' \<in> gated_class e"
    by (simp add: gated_class_def LazyPSUtil_class_def)
  obtain res s1 where g: "get_connections e self = (res, s1)" by (cases "get_connections e self")
  show ?thesis
  proof (cases res)
    case (Inl err)
    have "collect_into (gated_class e) True ''net'' ''get_connections'' (get_connections e) [] self
            = (Inl err, s1)"
      using c g Inl by (simp add: collect_into_def call_method_def and_then_def)
    then show ?thesis unfolding write_json_def using True g Inl
      by (simp add: and_then_def)
  next
    case (Inr v)
    have "collect_into (gated_class e) True ''net'' ''get_connections'' (get_connections e) [] self
            = (Inr (AList.update (KStr ''net'') v []), s1)"
      using c g Inr by (simp add: collect_into_ok)
    then show ?thesis unfolding write_json_def using True r g Inr
      by (simp add: and_then_def collect_into_missing[OF m])
  qed
qed

lemma worker_stderr:
  "stderr (worker e p fl)
     = (case fst (write_json e (gated_class e) fl \<lparr>pid = p, cached_process = None\<rparr>) of
          Inl err \<Rightarrow> Some err | Inr data \<Rightarrow> None)"
  unfolding worker_unfold
  by (cases "write_json e (gated_class e) fl \<lparr>pid = p, cached_process = None\<rparr>")
     (simp split: sum.splits)

lemma default_pid_simps [simp]:
  "default_pid e None = getpid e" "default_pid e (Some given) = given"
  by (simp_all add: default_pid_def)

lemmas eval_defs = worker_unfold gated_class_def LazyPSUtil_class_def write_json_def
  env_defs bsd_env_def probe_defs act_defs op_defs process_details_unfold

lemma connections_loop_map: "connections_loop cs acc = acc @ map connection_entry cs"
  by (induction cs arbitrary: acc) simp_all

lemma digit_char_digit: "d < 10 \<Longrightarrow> digit_char d \<in> set ''0123456789''"
  unfolding digit_char_def by (rule nth_mem) simp

lemma str_nat_last: "str_nat n \<noteq> [] \<and> last (str_nat n) \<in> set ''0123456789''"
proof (induction n rule: str_nat.induct)
  case (1 n)
  show ?case
  proof (cases "n < 10")
    case True
    then show ?thesis by (subst (1 2) str_nat.simps) (simp add: digit_char_digit del: set_simps)
  next
    case False
    have "n mod 10 < 10" by simp
    then have "digit_char (n mod 10) \<in> set ''0123456789''" by (rule digit_char_digit)
    with False show ?thesis by (subst (1 2) str_nat.simps) (simp del: set_simps)
  qed
qed

lemma str_int_last: "str_int i \<noteq> [] \<and> last (str_int i) \<in> set ''0123456789''"
  using str_nat_last by (simp add: str_int_def)

lemma colon_join_not_star: "colon_join ip (str_int port) \<noteq> ''*:*''"
proof
  assume a: "colon_join ip (str_int port) = ''*:*''"
  have "last (colon_join ip (str_int port)) = last (str_int port)"
    using str_int_last[of port] by (simp add: colon_join_def)
  with a have "last (str_int port) = CHR ''*''" by simp
  with str_int_last[of port] show False by simp
qed

lemma connection_entry_shape:
  "\<exists>d. connection_entry c = PDict d
     \<and> fst ` set d = {KStr ''type'', KStr ''status'', KStr ''local'', KStr ''remote''}
     \<and> (conn_type c = SOCK_STREAM \<longrightarrow> map_of d (KStr ''type'') = Some (PStr ''TCP''))
     \<and> (conn_type c = SOCK_DGRAM \<longrightarrow> map_of d (KStr ''type'') = Some (PStr ''UDP''))
     \<and> (conn_type c \<noteq> SOCK_STREAM \<and> conn_type c \<noteq> SOCK_DGRAM \<longrightarrow>
            map_of d (KStr ''type'') = Some (PStr ''UNIX''))
     \<and> map_of d (KStr ''status'') = Some (PStr (conn_status c))
     \<and> map_of d (KStr ''local'')
          = Some (PStr (fst (local_address c) @ '':'' @ str_int (snd (local_address c))))
     \<and> (map_of d (KStr ''remote'') = Some (PStr ''*:*'') \<longleftrightarrow> remote_address c = None)
     \<and> (\<forall>ip port. remote_address c = Some (ip, port) \<longrightarrow>
            map_of d (KStr ''remote'') = Some (PStr (ip @ '':'' @ str_int port)))"
proof (cases "remote_address c")
  case None
  then show ?thesis
    by (cases "local_address c") (simp add: connection_entry_def colon_join_def)
next
  case (Some a)
  obtain ip port where a: "a = (ip, port)" by (cases a)
  have "colon_join ip (str_int port) \<noteq> ''*:*''" by (rule colon_join_not_star)
  then have "ip @ '':'' @ str_int port \<noteq> ''*:*''" by (simp add: colon_join_def)
  with Some a show ?thesis
    by (cases "local_address c") (simp add: connection_entry_def colon_join_def)
qed

lemma get_memory_info_cached:
  assumes h: "cached_process self = Some (Process p)" and i: "procs e p = Some info"
    and c: "check_osx_perm e"
  shows "get_memory_info e self =
    (Inr (PDict [(KStr ''pcnt'', PFloat (p_memory_percent info)),
                 (KStr ''rss'', PInt (rss (p_memory_info info))),
                 (KStr ''vms'', PFloat (system (p_cpu_times info)))]), self)"
  using h i c
  by (simp add: get_memory_info_def and_then_def process_def lift_def psutil_read_def returns_def)

lemma get_memory_info_value:
  assumes b: "bound_to p self" and i: "procs e p = Some info"
    and c: "check_osx_perm e" and n: "cached_process self = None \<longrightarrow> getpid e \<noteq> p"
  shows "get_memory_info e self =
    (Inr (PDict [(KStr ''pcnt'', PFloat (p_memory_percent info)),
                 (KStr ''rss'', PInt (rss (p_memory_info info))),
                 (KStr ''vms'', PFloat (system (p_cpu_times info)))]),
     self\<lparr>cached_process := Some (Process p)\<rparr>)"
proof (cases "cached_process self")
  case None
  with n have "getpid e \<noteq> p" by simp
  then show ?thesis using get_memory_info_ok[OF b i _ c] by simp
next
  case (Some h)
  with b have h: "cached_process self = Some (Process p)" by (simp add: bound_to_def)
  then have "self\<lparr>cached_process := Some (Process p)\<rparr> = self" by simp
  then show ?thesis using get_memory_info_cached[OF h i c] by simp
qed

lemma get_memory_info_cases:
  assumes b: "bound_to p self" and r: "get_memory_info e self = (Inr v, self')"
  shows "check_osx_perm e \<and> (\<exists>info. procs e p = Some info)
         \<and> (cached_process self = None \<longrightarrow> getpid e \<noteq> p)"
proof (intro conjI)
  show c: "check_osx_perm e"
  proof (rule ccontr)
    assume "\<not> check_osx_perm e"
    then have "fst (get_memory_info e self) = Inl (OSXPermissionFailure ''OSX requires root for memory info'')"
      by (simp add: get_memory_info_def raises_def)
    with r show False by simp
  qed
  show i: "\<exists>info. procs e p = Some info"
  proof (rule ccontr)
    assume "\<not> (\<exists>info. procs e p = Some info)"
    then have none: "procs e p = None" by simp
    have "fst (get_memory_info e self) = Inl (NoSuchProcess p)"
    proof (cases "cached_process self")
      case None
      then show ?thesis using none b c
        by (simp add: get_memory_info_def and_then_def process_def psutil_Process_def bound_to_def)
    next
      case (Some h)
      with b have "cached_process self = Some (Process p)" by (simp add: bound_to_def)
      then show ?thesis using none c
        by (simp add: get_memory_info_def and_then_def process_def lift_def psutil_read_def)
    qed
    with r show False by simp
  qed
  show "cached_process self = None \<longrightarrow> getpid e \<noteq> p"
  proof (intro impI notI)
    assume f: "cached_process self = None" and g: "getpid e = p"
    from i obtain info where "procs e p = Some info" by blast
    then have "fst (get_memory_info e self)
                 = Inl (InvalidPIDError ''Can't run process inspection on itself'')"
      using f g b c
      by (simp add: get_memory_info_def and_then_def process_def psutil_Process_def bound_to_def Let_def)
    with r show False by simp
  qed
qed

lemma accesses_cached:
  "cached_process self = Some h \<Longrightarrow> accesses e n self = (replicate n (Inr h), self)"
  by (induction n) (simp_all add: process_def)

lemma gated_class_smaller:
  assumes "\<not> supports_iocounters e \<or> \<not> check_osx_perm e"
  shows "gated_class e \<subset> LazyPSUtil_class"
proof
  show "gated_class e \<subseteq> LazyPSUtil_class" unfolding gated_class_def by (rule subsetI) simp
  show "gated_class e \<noteq> LazyPSUtil_class"
  proof (cases "supports_iocounters e")
    case False
    then have "''get_io_counters'' \<notin> gated_class e" by (simp add: gated_class_def)
    moreover have "''get_io_counters'' \<in> LazyPSUtil_class" by (simp add: LazyPSUtil_class_def)
    ultimately show ?thesis by metis
  next
    case True
    with assms have "\<not> check_osx_perm e" by simp
    then have "''get_cpu_info'' \<notin> gated_class e" by (simp add: gated_class_def)
    moreover have "''get_cpu_info'' \<in> LazyPSUtil_class" by (simp add: LazyPSUtil_class_def)
    ultimately show ?thesis by metis
  qed
qed

lemma init_again:
  assumes "\<not> supports_iocounters e \<or> \<not> check_osx_perm e"
  shows "LazyPSUtil_init e (gated_class e) q
           = (Inl (AttributeError (if \<not> supports_iocounters e then ''get_io_counters''
                                     else ''get_cpu_info'')), gated_class e)"
proof (cases "supports_iocounters e")
  case False
  then have "''get_io_counters'' \<notin> gated_class e" by (simp add: gated_class_def)
  with False show ?thesis by (simp add: LazyPSUtil_init_def del_attr_def)
next
  case True
  with assms have c: "\<not> check_osx_perm e" by simp
  then have "''get_cpu_info'' \<notin> gated_class e" by (simp add: gated_class_def)
  with True c show ?thesis by (simp add: LazyPSUtil_init_def del_attr_def)
qed

lemma pops_leftover:
  "AList.delete ''threads'' (AList.delete ''mem'' (AList.delete ''cpu''
       (AList.delete ''io'' (AList.delete ''net'' config)))) = leftover config"
  by (induction config) (auto simp: leftover_def recognized_def)

lemma leftover_keys: "fst ` set (leftover config) = fst ` set config - recognized"
  unfolding leftover_def by auto

lemma metlog_procinfo_unfold:
  "metlog_procinfo e w pid_arg config =
     (if leftover config \<noteq> [] then (Inl (SyntaxError (leftover config)), leftover config, w)
      else
        (case process_details e w (Some (default_pid e pid_arg))
                \<lparr>net = config_flag config ''net'', io = config_flag config ''io'',
                 cpu = config_flag config ''cpu'', mem = config_flag config ''mem'',
                 threads = config_flag config ''threads''\<rparr> of
           (Inl err, w') \<Rightarrow> (Inl err, leftover config, w')
         | (Inr procinfo_fields, w') \<Rightarrow>
             (Inr (), leftover config,
              w'\<lparr>metlog_calls := metlog_calls w' @ [(''procinfo'', procinfo_fields)]\<rparr>)))"
  by (simp add: metlog_procinfo_def pop_def Let_def pops_leftover config_flag_def
        split: prod.splits sum.splits)

lemma process_details_error:
  "fst (process_details e w pid_arg fl) = Inl err \<Longrightarrow> \<exists>msg. err = ValueError msg"
  unfolding process_details_unfold
  by (cases "stdout (worker (e\<lparr>getpid := spawn_pid e\<rparr>) (default_pid e pid_arg) fl)" rule: json_loads.cases)
     auto

lemma config_after:
  "fst (snd (metlog_procinfo e w pid_arg config)) = leftover config"
  unfolding metlog_procinfo_unfold
  by (simp split: prod.splits sum.splits)

lemma unrecognized_key_raises:
  assumes "\<exists>k\<in>fst ` set config. k \<notin> recognized"
  shows "leftover config \<noteq> []
       \<and> metlog_procinfo e w pid_arg config
           = (Inl (SyntaxError (leftover config)),
              leftover config, w)"
proof -
  from assms have "fst ` set (leftover config) \<noteq> {}"
    unfolding leftover_keys by blast
  then have n: "leftover config \<noteq> []" by auto
  then show ?thesis unfolding metlog_procinfo_unfold by simp
qed

lemma recognized_keys_pass:
  assumes "fst ` set config \<subseteq> recognized"
  shows "fst (metlog_procinfo e w pid_arg config) \<noteq> Inl (SyntaxError left)"
proof
  assume a: "fst (metlog_procinfo e w pid_arg config) = Inl (SyntaxError left)"
  from assms have "fst ` set (leftover config) = {}"
    unfolding leftover_keys by blast
  then have n: "leftover config = []" by simp
  let ?pd = "process_details e w (Some (default_pid e pid_arg))
                \<lparr>net = config_flag config ''net'', io = config_flag config ''io'',
                 cpu = config_flag config ''cpu'', mem = config_flag config ''mem'',
                 threads = config_flag config ''threads''\<rparr>"
  from a have "fst ?pd = Inl (SyntaxError left)"
    unfolding metlog_procinfo_unfold using n
    by (cases ?pd) (auto split: sum.splits)
  from process_details_error[OF this] show False by simp
qed

section \<open>Which categories a collection returns\<close>

text \<open>
  C1 (amended). The code has no silent omission. For a target process that exists and is
  not the worker itself: when the probe of every requested category passes,
  \<open>process_details\<close> returns a dictionary whose keys are exactly the requested
  categories; when the probe of some requested category fails, the worker exits with
  status 1 and \<open>process_details\<close> raises the \<open>ValueError\<close> of decoding empty output, so no
  result is returned at all.
\<close>

theorem process_details_keys:
  assumes i: "procs e (default_pid e pid_arg) = Some info"
    and n: "spawn_pid e \<noteq> default_pid e pid_arg"
  shows "((\<forall>c\<in>requested fl. gate e c) \<longrightarrow>
            (\<exists>d. fst (process_details e w pid_arg fl) = Inr (PDict d)
                 \<and> fst ` set d = KStr ` requested fl))
       \<and> ((\<exists>c\<in>requested fl. \<not> gate e c) \<longrightarrow>
            returncode (worker (e\<lparr>getpid := spawn_pid e\<rparr>) (default_pid e pid_arg) fl) = 1
          \<and> fst (process_details e w pid_arg fl) = Inl (ValueError ''No JSON object could be decoded''))"
proof (intro conjI impI)
  let ?e = "e\<lparr>getpid := spawn_pid e\<rparr>"
  let ?p = "default_pid e pid_arg"
  assume g: "\<forall>c\<in>requested fl. gate e c"
  have i': "procs ?e ?p = Some info" using i by simp
  have n': "getpid ?e \<noteq> ?p" using n by simp
  have g': "\<forall>c\<in>requested fl. gate ?e c" using g by simp
  from worker_gates_pass[OF i' n' g'] obtain d where
    w: "worker ?e ?p fl = \<lparr>stdout = [PDict d], stderr = None, returncode = 0\<rparr>"
    and k: "fst ` set d = KStr ` requested fl" by blast
  have r: "fst (process_details e w pid_arg fl) = Inr (PDict (map (map_prod json_key json_roundtrip) d))"
    unfolding process_details_unfold by (simp add: w)
  have "fst ` set (map (map_prod json_key json_roundtrip) d) = KStr ` requested fl"
    unfolding json_roundtrip_keys k by (auto simp: image_image)
  with r show "\<exists>d. fst (process_details e w pid_arg fl) = Inr (PDict d)
                 \<and> fst ` set d = KStr ` requested fl" by blast
next
  let ?e = "e\<lparr>getpid := spawn_pid e\<rparr>"
  let ?p = "default_pid e pid_arg"
  assume "\<exists>c\<in>requested fl. \<not> gate e c"
  then have g: "\<exists>c\<in>requested fl. \<not> gate ?e c" by simp
  have f: "stdout (worker ?e ?p fl) = [] \<and> stderr (worker ?e ?p fl) \<noteq> None \<and> returncode (worker ?e ?p fl) = 1"
    using g by (rule worker_gate_failed)
  then show "returncode (worker ?e ?p fl) = 1" by simp
  show "fst (process_details e w pid_arg fl) = Inl (ValueError ''No JSON object could be decoded'')"
    unfolding process_details_unfold using f by simp
qed

text \<open>
  Both halves on concrete machines: three categories on Linux, and I/O counters with
  thread times on the BSD without I/O counters.
\<close>

theorem process_details_keys_witness:
  "procs linux_env (default_pid linux_env None) = Some listening_proc
   \<and> spawn_pid linux_env \<noteq> default_pid linux_env None
   \<and> requested \<lparr>net = True, io = True, cpu = False, mem = True, threads = False\<rparr> = {''net'', ''io'', ''mem''}
   \<and> gate linux_env ''net'' \<and> gate linux_env ''io'' \<and> gate linux_env ''mem''
   \<and> (\<exists>d. fst (process_details linux_env quiet_world None
                  \<lparr>net = True, io = True, cpu = False, mem = True, threads = False\<rparr>) = Inr (PDict d)
          \<and> fst ` set d = {KStr ''net'', KStr ''io'', KStr ''mem''})
   \<and> io \<lparr>net = False, io = True, cpu = False, mem = False, threads = True\<rparr>
   \<and> \<not> gate bsd_env ''io''
   \<and> fst (process_details bsd_env quiet_world (Some 4242)
            \<lparr>net = False, io = True, cpu = False, mem = False, threads = True\<rparr>)
       = Inl (ValueError ''No JSON object could be decoded'')"
proof -
  have h1: "procs linux_env (default_pid linux_env None) = Some listening_proc"
    by (simp add: env_defs)
  have h2: "spawn_pid linux_env \<noteq> default_pid linux_env None"
    by (simp add: env_defs)
  have h3: "\<forall>c\<in>requested \<lparr>net = True, io = True, cpu = False, mem = True, threads = False\<rparr>. gate linux_env c"
    by (simp add: requested_def gate_def probe_defs env_defs)
  have h4: "procs bsd_env (default_pid bsd_env (Some 4242)) = Some listening_proc"
    by (simp add: env_defs bsd_env_def)
  have h5: "spawn_pid bsd_env \<noteq> default_pid bsd_env (Some 4242)"
    by (simp add: bsd_env_def)
  have h6: "\<exists>c\<in>requested \<lparr>net = False, io = True, cpu = False, mem = False, threads = True\<rparr>. \<not> gate bsd_env c"
    by (simp add: requested_def gate_def probe_defs bsd_env_def)
  have r: "requested \<lparr>net = True, io = True, cpu = False, mem = True, threads = False\<rparr> = {''net'', ''io'', ''mem''}"
    by (auto simp: requested_def)
  have h7: "\<not> gate bsd_env ''io''"
    by (simp add: gate_def probe_defs bsd_env_def)
  show ?thesis
    using process_details_keys[OF h1 h2, of "\<lparr>net = True, io = True, cpu = False, mem = True, threads = False\<rparr>" quiet_world]
      process_details_keys[OF h4 h5, of "\<lparr>net = False, io = True, cpu = False, mem = False, threads = True\<rparr>" quiet_world]
      h1 h2 h3 h6 h7 unfolding r by simp
qed

text \<open>
  On OS X without root, asking for \<open>net\<close> and \<open>mem\<close>: only \<open>net\<close> is requested and
  supported, yet the call does not return a dictionary with the key \<open>net\<close>. The worker
  dies on the deleted method \<open>get_memory_info\<close> and the caller gets a \<open>ValueError\<close>.
\<close>

theorem gate_failure_aborts_counterexample:
  "supported_requested osx_user_env \<lparr>net = True, io = False, cpu = False, mem = True, threads = False\<rparr> = {''net''}
   \<and> worker (osx_user_env\<lparr>getpid := spawn_pid osx_user_env\<rparr>) 4242
        \<lparr>net = True, io = False, cpu = False, mem = True, threads = False\<rparr>
       = \<lparr>stdout = [], stderr = Some (AttributeError ''get_memory_info''), returncode = 1\<rparr>
   \<and> fst (process_details osx_user_env quiet_world (Some 4242)
            \<lparr>net = True, io = False, cpu = False, mem = True, threads = False\<rparr>)
       = Inl (ValueError ''No JSON object could be decoded'')"
proof -
  have a: "supported_requested osx_user_env \<lparr>net = True, io = False, cpu = False, mem = True, threads = False\<rparr> = {''net''}"
    by (auto simp: supported_requested_def requested_def gate_def probe_defs env_defs)
  have b: "worker (osx_user_env\<lparr>getpid := spawn_pid osx_user_env\<rparr>) 4242
        \<lparr>net = True, io = False, cpu = False, mem = True, threads = False\<rparr>
       = \<lparr>stdout = [], stderr = Some (AttributeError ''get_memory_info''), returncode = 1\<rparr>"
    by (simp add: eval_defs)
  have c: "fst (process_details osx_user_env quiet_world (Some 4242)
            \<lparr>net = True, io = False, cpu = False, mem = True, threads = False\<rparr>)
       = Inl (ValueError ''No JSON object could be decoded'')"
    unfolding process_details_unfold default_pid_simps b by simp
  show ?thesis using a b c by blast
qed

section \<open>I/O counters on a platform without them\<close>

text \<open>
  C2 (amended). When \<open>io\<close> is requested and \<open>supports_iocounters()\<close> is false, the
  worker writes nothing, reports an exception and exits with status 1, and
  \<open>process_details\<close> raises a \<open>ValueError\<close> instead of returning a result. The exception
  the worker reports is the \<open>AttributeError\<close> of the deleted method \<open>get_io_counters\<close>,
  whether or not \<open>net\<close> was requested, unless \<open>net\<close> was requested and
  \<open>get_connections\<close> raised first: then it is that exception. The body of
  \<open>get_io_counters\<close> itself exits with \<open>platform not supported\<close> before it touches the
  process handle. It is not the only category that fails hard: when \<open>check_osx_perm()\<close>
  is false, a request for \<open>cpu\<close>, \<open>mem\<close> or \<open>threads\<close> ends the worker and the call
  the same way.
\<close>

theorem io_unsupported_fails:
  "(\<not> supports_iocounters e \<and> io fl \<longrightarrow>
       stdout (worker (e\<lparr>getpid := spawn_pid e\<rparr>) (default_pid e pid_arg) fl) = []
     \<and> returncode (worker (e\<lparr>getpid := spawn_pid e\<rparr>) (default_pid e pid_arg) fl) = 1
     \<and> stderr (worker (e\<lparr>getpid := spawn_pid e\<rparr>) (default_pid e pid_arg) fl)
          = Some (if net fl
                  then (case fst (get_connections (e\<lparr>getpid := spawn_pid e\<rparr>)
                                    \<lparr>pid = default_pid e pid_arg, cached_process = None\<rparr>) of
                          Inl err \<Rightarrow> err
                        | Inr v \<Rightarrow> AttributeError ''get_io_counters'')
                  else AttributeError ''get_io_counters'')
     \<and> (\<not> net fl \<longrightarrow>
          stderr (worker (e\<lparr>getpid := spawn_pid e\<rparr>) (default_pid e pid_arg) fl)
            = Some (AttributeError ''get_io_counters''))
     \<and> fst (process_details e w pid_arg fl) = Inl (ValueError ''No JSON object could be decoded'')
     \<and> (\<forall>self. get_io_counters e self = (Inl (SystemExit ''platform not supported''), self)))
   \<and> (\<not> check_osx_perm e \<and> (cpu fl \<or> mem fl \<or> threads fl) \<longrightarrow>
       stdout (worker (e\<lparr>getpid := spawn_pid e\<rparr>) (default_pid e pid_arg) fl) = []
     \<and> returncode (worker (e\<lparr>getpid := spawn_pid e\<rparr>) (default_pid e pid_arg) fl) = 1
     \<and> fst (process_details e w pid_arg fl) = Inl (ValueError ''No JSON object could be decoded''))"
proof (intro conjI impI)
  let ?e = "e\<lparr>getpid := spawn_pid e\<rparr>"
  let ?p = "default_pid e pid_arg"
  assume "\<not> supports_iocounters e \<and> io fl"
  then have u: "\<not> supports_iocounters e" and r: "io fl" by simp_all
  have u': "\<not> supports_iocounters ?e" using u by simp
  have g: "\<exists>c\<in>requested fl. \<not> gate ?e c"
    using u r by (auto simp: requested_def gate_def)
  have f: "stdout (worker ?e ?p fl) = [] \<and> stderr (worker ?e ?p fl) \<noteq> None
             \<and> returncode (worker ?e ?p fl) = 1"
    using g by (rule worker_gate_failed)
  from f show "stdout (worker ?e ?p fl) = []" by simp
  from f show "returncode (worker ?e ?p fl) = 1" by simp
  show "fst (process_details e w pid_arg fl) = Inl (ValueError ''No JSON object could be decoded'')"
    unfolding process_details_unfold using f by simp
  show "\<forall>self. get_io_counters e self = (Inl (SystemExit ''platform not supported''), self)"
    using u by (simp add: get_io_counters_def raises_def)
  show "stderr (worker ?e ?p fl)
          = Some (if net fl
                  then (case fst (get_connections ?e \<lparr>pid = ?p, cached_process = None\<rparr>) of
                          Inl err \<Rightarrow> err
                        | Inr v \<Rightarrow> AttributeError ''get_io_counters'')
                  else AttributeError ''get_io_counters'')"
    unfolding worker_stderr io_gate_failed_error[OF u' r] by simp
  assume n: "\<not> net fl"
  show "stderr (worker ?e ?p fl) = Some (AttributeError ''get_io_counters'')"
    unfolding worker_stderr io_gate_failed_error[OF u' r] using n by simp
next
  let ?e = "e\<lparr>getpid := spawn_pid e\<rparr>"
  let ?p = "default_pid e pid_arg"
  assume "\<not> check_osx_perm e \<and> (cpu fl \<or> mem fl \<or> threads fl)"
  then have g: "\<exists>c\<in>requested fl. \<not> gate ?e c"
    by (auto simp: requested_def gate_def)
  have f: "stdout (worker ?e ?p fl) = [] \<and> stderr (worker ?e ?p fl) \<noteq> None
             \<and> returncode (worker ?e ?p fl) = 1"
    using g by (rule worker_gate_failed)
  from f show "stdout (worker ?e ?p fl) = []" by simp
  from f show "returncode (worker ?e ?p fl) = 1" by simp
  show "fst (process_details e w pid_arg fl) = Inl (ValueError ''No JSON object could be decoded'')"
    unfolding process_details_unfold using f by simp
qed

text \<open>
  On the BSD machine without I/O counters: \<open>net\<close> and \<open>io\<close> requested with \<open>net\<close>
  succeeding, the same request for a pid that does not exist (\<open>net\<close> fails first), and
  \<open>io\<close> alone; on OS X without root, \<open>threads\<close> is requested.
\<close>

theorem io_unsupported_fails_witness:
  "\<not> supports_iocounters bsd_env
   \<and> io \<lparr>net = True, io = True, cpu = True, mem = False, threads = False\<rparr>
   \<and> net \<lparr>net = True, io = True, cpu = True, mem = False, threads = False\<rparr>
   \<and> worker (bsd_env\<lparr>getpid := spawn_pid bsd_env\<rparr>) (default_pid bsd_env None)
        \<lparr>net = True, io = True, cpu = True, mem = False, threads = False\<rparr>
       = \<lparr>stdout = [], stderr = Some (AttributeError ''get_io_counters''), returncode = 1\<rparr>
   \<and> worker (bsd_env\<lparr>getpid := spawn_pid bsd_env\<rparr>) (default_pid bsd_env (Some 1))
        \<lparr>net = True, io = True, cpu = True, mem = False, threads = False\<rparr>
       = \<lparr>stdout = [], stderr = Some (NoSuchProcess 1), returncode = 1\<rparr>
   \<and> \<not> net \<lparr>net = False, io = True, cpu = False, mem = False, threads = False\<rparr>
   \<and> stderr (worker (bsd_env\<lparr>getpid := spawn_pid bsd_env\<rparr>) (default_pid bsd_env None)
        \<lparr>net = False, io = True, cpu = False, mem = False, threads = False\<rparr>)
       = Some (AttributeError ''get_io_counters'')
   \<and> fst (process_details bsd_env quiet_world None
            \<lparr>net = True, io = True, cpu = True, mem = False, threads = False\<rparr>)
       = Inl (ValueError ''No JSON object could be decoded'')
   \<and> \<not> check_osx_perm osx_user_env
   \<and> threads \<lparr>net = True, io = False, cpu = False, mem = False, threads = True\<rparr>
   \<and> returncode (worker (osx_user_env\<lparr>getpid := spawn_pid osx_user_env\<rparr>) (default_pid osx_user_env None)
        \<lparr>net = True, io = False, cpu = False, mem = False, threads = True\<rparr>) = 1
   \<and> fst (process_details osx_user_env quiet_world None
            \<lparr>net = True, io = False, cpu = False, mem = False, threads = True\<rparr>)
       = Inl (ValueError ''No JSON object could be decoded'')"
proof -
  let ?both = "\<lparr>net = True, io = True, cpu = True, mem = False, threads = False\<rparr>"
  let ?io = "\<lparr>net = False, io = True, cpu = False, mem = False, threads = False\<rparr>"
  let ?thr = "\<lparr>net = True, io = False, cpu = False, mem = False, threads = True\<rparr>"
  have u: "\<not> supports_iocounters bsd_env" by (simp add: probe_defs bsd_env_def)
  have c: "\<not> check_osx_perm osx_user_env" by (simp add: probe_defs osx_user_env_def)
  have g1: "fst (get_connections (bsd_env\<lparr>getpid := spawn_pid bsd_env\<rparr>)
                   \<lparr>pid = default_pid bsd_env None, cached_process = None\<rparr>)
              = Inr (PList [PDict [(KStr ''type'', PStr ''TCP''), (KStr ''status'', PStr ''LISTEN''),
                                   (KStr ''local'', PStr ''127.0.0.1:50007''),
                                   (KStr ''remote'', PStr ''*:*'')]])"
    by (simp add: env_defs bsd_env_def act_defs op_defs str_int_50007)
  have g2: "fst (get_connections (bsd_env\<lparr>getpid := spawn_pid bsd_env\<rparr>)
                   \<lparr>pid = default_pid bsd_env (Some 1), cached_process = None\<rparr>)
              = Inl (NoSuchProcess 1)"
    by (simp add: env_defs bsd_env_def act_defs op_defs)
  have a: "worker (bsd_env\<lparr>getpid := spawn_pid bsd_env\<rparr>) (default_pid bsd_env None) ?both
             = \<lparr>stdout = [], stderr = Some (AttributeError ''get_io_counters''), returncode = 1\<rparr>"
    using io_unsupported_fails[of bsd_env ?both None quiet_world] u g1
    by (cases "worker (bsd_env\<lparr>getpid := spawn_pid bsd_env\<rparr>) (default_pid bsd_env None) ?both") simp
  have b: "worker (bsd_env\<lparr>getpid := spawn_pid bsd_env\<rparr>) (default_pid bsd_env (Some 1)) ?both
             = \<lparr>stdout = [], stderr = Some (NoSuchProcess 1), returncode = 1\<rparr>"
    using io_unsupported_fails[of bsd_env ?both "Some 1" quiet_world] u g2
    by (cases "worker (bsd_env\<lparr>getpid := spawn_pid bsd_env\<rparr>) (default_pid bsd_env (Some 1)) ?both") simp
  have d: "stderr (worker (bsd_env\<lparr>getpid := spawn_pid bsd_env\<rparr>) (default_pid bsd_env None) ?io)
             = Some (AttributeError ''get_io_counters'')"
    using io_unsupported_fails[of bsd_env ?io None quiet_world] u by simp
  have p: "fst (process_details bsd_env quiet_world None ?both)
             = Inl (ValueError ''No JSON object could be decoded'')"
    using io_unsupported_fails[of bsd_env ?both None quiet_world] u by simp
  have t: "returncode (worker (osx_user_env\<lparr>getpid := spawn_pid osx_user_env\<rparr>)
                         (default_pid osx_user_env None) ?thr) = 1
           \<and> fst (process_details osx_user_env quiet_world None ?thr)
               = Inl (ValueError ''No JSON object could be decoded'')"
    using io_unsupported_fails[of osx_user_env ?thr None quiet_world] c by simp
  show ?thesis using u c a b d p t by simp
qed

text \<open>
  \<open>io\<close> is not the single category that fails hard: on OS X without root a request for
  \<open>cpu\<close> alone, with \<open>io\<close> not requested, ends the worker with an \<open>AttributeError\<close>
  and the call with a \<open>ValueError\<close>; \<open>cpu\<close> is not omitted from a returned result.
\<close>

theorem cpu_fails_hard_counterexample:
  "\<not> io \<lparr>net = False, io = False, cpu = True, mem = False, threads = False\<rparr>
   \<and> \<not> gate osx_user_env ''cpu''
   \<and> worker (osx_user_env\<lparr>getpid := spawn_pid osx_user_env\<rparr>) (default_pid osx_user_env None)
        \<lparr>net = False, io = False, cpu = True, mem = False, threads = False\<rparr>
       = \<lparr>stdout = [], stderr = Some (AttributeError ''get_cpu_info''), returncode = 1\<rparr>
   \<and> fst (process_details osx_user_env quiet_world None
            \<lparr>net = False, io = False, cpu = True, mem = False, threads = False\<rparr>)
       = Inl (ValueError ''No JSON object could be decoded'')"
  by (simp add: gate_def eval_defs)

section \<open>A worker that exits with a non-zero status\<close>

text \<open>
  C5 (amended). Whenever the worker exits with a non-zero status, \<open>process_details\<close>
  raises the \<open>ValueError\<close> that \<open>json.loads\<close> raises on empty output, always the same
  one: the captured error stream and the exit status are dropped.
\<close>

theorem worker_failure_is_decode_error:
  assumes "returncode (worker (e\<lparr>getpid := spawn_pid e\<rparr>) (default_pid e pid_arg) fl) \<noteq> 0"
  shows "fst (process_details e w pid_arg fl) = Inl (ValueError ''No JSON object could be decoded'')"
proof -
  let ?e = "e\<lparr>getpid := spawn_pid e\<rparr>"
  let ?p = "default_pid e pid_arg"
  have "stdout (worker ?e ?p fl) = []"
    using assms unfolding worker_unfold
    by (cases "write_json ?e (gated_class ?e) fl \<lparr>pid = ?p, cached_process = None\<rparr>")
       (auto split: sum.splits)
  then show ?thesis unfolding process_details_unfold by simp
qed

text \<open>A target pid that does not exist makes the worker fail.\<close>

theorem worker_failure_is_decode_error_witness:
  "returncode (worker (linux_env\<lparr>getpid := spawn_pid linux_env\<rparr>) (default_pid linux_env (Some 1))
       \<lparr>net = True, io = False, cpu = False, mem = False, threads = False\<rparr>) \<noteq> 0
   \<and> fst (process_details linux_env quiet_world (Some 1)
            \<lparr>net = True, io = False, cpu = False, mem = False, threads = False\<rparr>)
       = Inl (ValueError ''No JSON object could be decoded'')"
proof -
  have h: "returncode (worker (linux_env\<lparr>getpid := spawn_pid linux_env\<rparr>) (default_pid linux_env (Some 1))
       \<lparr>net = True, io = False, cpu = False, mem = False, threads = False\<rparr>) \<noteq> 0"
    by (simp add: eval_defs)
  show ?thesis using worker_failure_is_decode_error[OF h, of quiet_world] h by simp
qed

text \<open>
  Two workers that fail for different reasons, with different error streams, give the
  caller the same error, which is also the error for a child that exits with status 0
  and writes nothing: the error carries neither the error stream nor the exit status.
\<close>

theorem stderr_and_status_dropped_counterexample:
  "worker (linux_env\<lparr>getpid := spawn_pid linux_env\<rparr>) 1
       \<lparr>net = True, io = False, cpu = False, mem = False, threads = False\<rparr>
     = \<lparr>stdout = [], stderr = Some (NoSuchProcess 1), returncode = 1\<rparr>
   \<and> worker (linux_env\<lparr>getpid := spawn_pid linux_env\<rparr>) 4243
       \<lparr>net = True, io = False, cpu = False, mem = False, threads = False\<rparr>
     = \<lparr>stdout = [], stderr = Some (InvalidPIDError ''Can't run process inspection on itself''), returncode = 1\<rparr>
   \<and> fst (process_details linux_env quiet_world (Some 1)
            \<lparr>net = True, io = False, cpu = False, mem = False, threads = False\<rparr>)
       = Inl (ValueError ''No JSON object could be decoded'')
   \<and> fst (process_details linux_env quiet_world (Some 4243)
            \<lparr>net = True, io = False, cpu = False, mem = False, threads = False\<rparr>)
       = Inl (ValueError ''No JSON object could be decoded'')
   \<and> json_loads (stdout \<lparr>stdout = [], stderr = None, returncode = 0\<rparr>)
       = Inl (ValueError ''No JSON object could be decoded'')"
  by (simp add: eval_defs)

section \<open>Inspecting the inspector's own process\<close>

text \<open>
  C3 (the code breaks it). Run inside process 4242 on an inspector of pid 4242: the
  first read of \<open>process\<close> raises \<open>InvalidPIDError\<close> but leaves the handle in
  \<open>_process\<close>; the second read returns the handle of the inspector's own process, and
  \<open>get_connections\<close> then reports the inspector's own listening socket.
\<close>

theorem self_inspection_second_access:
  "process linux_env \<lparr>pid = getpid linux_env, cached_process = None\<rparr>
     = (Inl (InvalidPIDError ''Can't run process inspection on itself''),
        \<lparr>pid = getpid linux_env, cached_process = Some (Process (getpid linux_env))\<rparr>)
   \<and> process linux_env \<lparr>pid = getpid linux_env, cached_process = Some (Process (getpid linux_env))\<rparr>
     = (Inr (Process (getpid linux_env)),
        \<lparr>pid = getpid linux_env, cached_process = Some (Process (getpid linux_env))\<rparr>)
   \<and> fst (get_connections linux_env
            \<lparr>pid = getpid linux_env, cached_process = Some (Process (getpid linux_env))\<rparr>)
     = Inr (PList [PDict [(KStr ''type'', PStr ''TCP''), (KStr ''status'', PStr ''LISTEN''),
                          (KStr ''local'', PStr ''127.0.0.1:50007''),
                          (KStr ''remote'', PStr ''*:*'')]])"
  by (simp add: env_defs act_defs op_defs str_int_50007)

text \<open>
  C8. When the target pid is the inspecting process's own pid and nothing is cached,
  the first read of \<open>process\<close> raises \<open>InvalidPIDError\<close> and every later read
  returns the cached handle without raising; the instance the error leaves behind is
  not the instance before the read, it holds the handle.
\<close>

theorem self_inspection_raises_once:
  assumes s: "pid self = getpid e" and f: "cached_process self = None"
    and x: "procs e (getpid e) = Some info"
  shows "accesses e (Suc n) self
           = (Inl (InvalidPIDError ''Can't run process inspection on itself'')
                # replicate n (Inr (Process (getpid e))),
              self\<lparr>cached_process := Some (Process (getpid e))\<rparr>)
       \<and> self\<lparr>cached_process := Some (Process (getpid e))\<rparr> \<noteq> self"
proof -
  let ?self' = "self\<lparr>cached_process := Some (Process (getpid e))\<rparr>"
  have p: "process e self = (Inl (InvalidPIDError ''Can't run process inspection on itself''), ?self')"
    using s f x by (simp add: process_def psutil_Process_def Let_def)
  have c: "cached_process ?self' = Some (Process (getpid e))" by simp
  have a: "accesses e n ?self' = (replicate n (Inr (Process (getpid e))), ?self')"
    using c by (rule accesses_cached)
  have d: "?self' \<noteq> self"
  proof
    assume "?self' = self"
    then have "cached_process ?self' = cached_process self" by simp
    with f show False by simp
  qed
  show ?thesis using p a d by simp
qed

text \<open>Three reads on the Linux machine, by the process that is being inspected.\<close>

theorem self_inspection_raises_once_witness:
  "pid \<lparr>pid = 4242, cached_process = None\<rparr> = getpid linux_env
   \<and> procs linux_env (getpid linux_env) = Some listening_proc
   \<and> accesses linux_env 3 \<lparr>pid = 4242, cached_process = None\<rparr>
       = ([Inl (InvalidPIDError ''Can't run process inspection on itself''),
           Inr (Process 4242), Inr (Process 4242)],
          \<lparr>pid = 4242, cached_process = Some (Process 4242)\<rparr>)"
proof -
  have s: "pid \<lparr>pid = 4242, cached_process = None\<rparr> = getpid linux_env" by (simp add: linux_env_def)
  have f: "cached_process \<lparr>pid = 4242, cached_process = None\<rparr> = None" by simp
  have x: "procs linux_env (getpid linux_env) = Some listening_proc" by (simp add: env_defs)
  have g: "getpid linux_env = 4242" by (simp add: linux_env_def)
  have t: "(3::nat) = Suc 2" by simp
  show ?thesis
    unfolding t using self_inspection_raises_once[OF s f x, of 2] s x
    by (simp add: g numeral_2_eq_2)
qed

section \<open>Connections\<close>

text \<open>
  C6. For an inspector whose handle resolves, \<open>get_connections\<close> returns one record
  per connection, in order, with exactly the keys type, status, local and remote:
  type is TCP for a stream socket, UDP for a datagram socket and UNIX for any other,
  status is the connection's status, local is \<open>ip:port\<close>, and remote is \<open>*:*\<close>
  exactly when the connection has no remote address (otherwise \<open>ip:port\<close>). For the
  process with one listening TCP socket on 127.0.0.1:50007, \<open>process_details\<close> with
  only \<open>net\<close> returns that one record under the key \<open>net\<close>.
\<close>

theorem get_connections_entries:
  assumes b: "bound_to p self" and i: "procs e p = Some info" and n: "getpid e \<noteq> p"
  shows "(\<exists>entries self'. get_connections e self = (Inr (PList entries), self')
          \<and> length entries = length (p_connections info)
          \<and> (\<forall>k<length entries. \<exists>d. entries ! k = PDict d
               \<and> fst ` set d = {KStr ''type'', KStr ''status'', KStr ''local'', KStr ''remote''}
               \<and> (conn_type (p_connections info ! k) = SOCK_STREAM \<longrightarrow>
                     map_of d (KStr ''type'') = Some (PStr ''TCP''))
               \<and> (conn_type (p_connections info ! k) = SOCK_DGRAM \<longrightarrow>
                     map_of d (KStr ''type'') = Some (PStr ''UDP''))
               \<and> (conn_type (p_connections info ! k) \<noteq> SOCK_STREAM
                    \<and> conn_type (p_connections info ! k) \<noteq> SOCK_DGRAM \<longrightarrow>
                     map_of d (KStr ''type'') = Some (PStr ''UNIX''))
               \<and> map_of d (KStr ''status'') = Some (PStr (conn_status (p_connections info ! k)))
               \<and> map_of d (KStr ''local'')
                    = Some (PStr (fst (local_address (p_connections info ! k)) @ '':''
                                  @ str_int (snd (local_address (p_connections info ! k)))))
               \<and> (map_of d (KStr ''remote'') = Some (PStr ''*:*'')
                    \<longleftrightarrow> remote_address (p_connections info ! k) = None)
               \<and> (\<forall>ip port. remote_address (p_connections info ! k) = Some (ip, port) \<longrightarrow>
                     map_of d (KStr ''remote'') = Some (PStr (ip @ '':'' @ str_int port)))))
       \<and> fst (process_details linux_env quiet_world None
                \<lparr>net = True, io = False, cpu = False, mem = False, threads = False\<rparr>)
           = Inr (PDict [(KStr ''net'',
                PList [PDict [(KStr ''type'', PStr ''TCP''), (KStr ''status'', PStr ''LISTEN''),
                              (KStr ''local'', PStr ''127.0.0.1:50007''),
                              (KStr ''remote'', PStr ''*:*'')]])])"
    (is "(\<exists>entries self'. _ \<and> _ \<and> (\<forall>k<length entries. \<exists>d. entries ! k = PDict d \<and> ?Q d k)) \<and> ?S")
proof (rule conjI)
  let ?entries = "map connection_entry (p_connections info)"
  have g: "get_connections e self
             = (Inr (PList ?entries), self\<lparr>cached_process := Some (Process p)\<rparr>)"
    using get_connections_ok[OF b i n] by (simp add: connections_loop_map)
  have q: "\<forall>k<length ?entries. \<exists>d. ?entries ! k = PDict d \<and> ?Q d k"
  proof (intro allI impI)
    fix k assume "k < length ?entries"
    then have "?entries ! k = connection_entry (p_connections info ! k)" by simp
    then show "\<exists>d. ?entries ! k = PDict d \<and> ?Q d k"
      using connection_entry_shape[of "p_connections info ! k"] by simp
  qed
  have l: "length ?entries = length (p_connections info)" by simp
  show "\<exists>entries self'. get_connections e self = (Inr (PList entries), self')
          \<and> length entries = length (p_connections info)
          \<and> (\<forall>k<length entries. \<exists>d. entries ! k = PDict d \<and> ?Q d k)"
    using g l q by blast
next
  show ?S by (simp add: eval_defs str_int_50007)
qed

text \<open>The worker 4243 on the Linux machine inspects process 4242.\<close>

theorem get_connections_entries_witness:
  "bound_to 4242 \<lparr>pid = 4242, cached_process = None\<rparr>
   \<and> procs (linux_env\<lparr>getpid := 4243\<rparr>) 4242 = Some listening_proc
   \<and> getpid (linux_env\<lparr>getpid := 4243\<rparr>) \<noteq> 4242
   \<and> (\<exists>entries self'. get_connections (linux_env\<lparr>getpid := 4243\<rparr>) \<lparr>pid = 4242, cached_process = None\<rparr>
          = (Inr (PList entries), self') \<and> length entries = 1)"
proof -
  have b: "bound_to 4242 \<lparr>pid = 4242, cached_process = None\<rparr>" by (simp add: bound_to_def)
  have i: "procs (linux_env\<lparr>getpid := 4243\<rparr>) 4242 = Some listening_proc" by (simp add: env_defs)
  have n: "getpid (linux_env\<lparr>getpid := 4243\<rparr>) \<noteq> 4242" by simp
  have l: "length (p_connections listening_proc) = 1" by (simp add: listening_proc_def)
  from get_connections_entries[OF b i n] l
  have "\<exists>entries self'. get_connections (linux_env\<lparr>getpid := 4243\<rparr>) \<lparr>pid = 4242, cached_process = None\<rparr>
          = (Inr (PList entries), self') \<and> length entries = 1"
    by metis
  with b i n show ?thesis by blast
qed

section \<open>Memory information\<close>

text \<open>
  C7. Whenever \<open>get_memory_info\<close> succeeds, its result has exactly the keys pcnt, rss
  and vms, and the value under vms is the system CPU time of the target process; the
  result stays the same whatever the virtual memory size of the process is.
\<close>

theorem memory_info_vms_is_system_cpu_time:
  assumes b: "bound_to p self" and r: "get_memory_info e self = (Inr v, self')"
  shows "\<exists>info d. procs e p = Some info \<and> v = PDict d
           \<and> fst ` set d = {KStr ''pcnt'', KStr ''rss'', KStr ''vms''}
           \<and> map_of d (KStr ''vms'') = Some (PFloat (system (p_cpu_times info)))
           \<and> (\<forall>x. fst (get_memory_info
                          (e\<lparr>procs := (procs e)(p \<mapsto> info\<lparr>p_memory_info := (p_memory_info info)\<lparr>vms := x\<rparr>\<rparr>)\<rparr>)
                          self) = Inr v)"
proof -
  note f = get_memory_info_cases[OF b r]
  from f have c: "check_osx_perm e" by (rule conjunct1)
  from f have n: "cached_process self = None \<longrightarrow> getpid e \<noteq> p" by simp
  from f have "\<exists>info. procs e p = Some info" by simp
  then obtain info where i: "procs e p = Some info" by (elim exE)
  let ?d = "[(KStr ''pcnt'', PFloat (p_memory_percent info)),
             (KStr ''rss'', PInt (rss (p_memory_info info))),
             (KStr ''vms'', PFloat (system (p_cpu_times info)))]"
  have v: "v = PDict ?d"
    using get_memory_info_value[OF b i c n] r by simp
  have x: "fst (get_memory_info
                  (e\<lparr>procs := (procs e)(p \<mapsto> info\<lparr>p_memory_info := (p_memory_info info)\<lparr>vms := x\<rparr>\<rparr>)\<rparr>)
                  self) = Inr v" for x
  proof -
    let ?e = "e\<lparr>procs := (procs e)(p \<mapsto> info\<lparr>p_memory_info := (p_memory_info info)\<lparr>vms := x\<rparr>\<rparr>)\<rparr>"
    have i': "procs ?e p = Some (info\<lparr>p_memory_info := (p_memory_info info)\<lparr>vms := x\<rparr>\<rparr>)" by simp
    have c': "check_osx_perm ?e" using c by (simp add: check_osx_perm_def)
    have n': "cached_process self = None \<longrightarrow> getpid ?e \<noteq> p" using n by simp
    show ?thesis using get_memory_info_value[OF b i' c' n'] v by simp
  qed
  have k: "fst ` set ?d = {KStr ''pcnt'', KStr ''rss'', KStr ''vms''}" by auto
  have m: "map_of ?d (KStr ''vms'') = Some (PFloat (system (p_cpu_times info)))" by simp
  show ?thesis
    by (intro exI[of _ info] exI[of _ "?d"] conjI allI) (rule i v k m x)+
qed

text \<open>
  On the Linux machine the target has system CPU time 1/8 and virtual memory size
  40960000; the result carries 1/8 under vms.
\<close>

theorem memory_info_vms_is_system_cpu_time_witness:
  "bound_to 4242 \<lparr>pid = 4242, cached_process = None\<rparr>
   \<and> get_memory_info (linux_env\<lparr>getpid := 4243\<rparr>) \<lparr>pid = 4242, cached_process = None\<rparr>
       = (Inr (PDict [(KStr ''pcnt'', PFloat (3 / 2)), (KStr ''rss'', PInt 8192000),
                      (KStr ''vms'', PFloat (1 / 8))]),
          \<lparr>pid = 4242, cached_process = Some (Process 4242)\<rparr>)
   \<and> system (p_cpu_times listening_proc) = 1 / 8
   \<and> vms (p_memory_info listening_proc) = 40960000
   \<and> (\<exists>info d. procs (linux_env\<lparr>getpid := 4243\<rparr>) 4242 = Some info
          \<and> fst ` set d = {KStr ''pcnt'', KStr ''rss'', KStr ''vms''}
          \<and> map_of d (KStr ''vms'') = Some (PFloat (system (p_cpu_times info))))"
proof -
  have b: "bound_to 4242 \<lparr>pid = 4242, cached_process = None\<rparr>" by (simp add: bound_to_def)
  have r: "get_memory_info (linux_env\<lparr>getpid := 4243\<rparr>) \<lparr>pid = 4242, cached_process = None\<rparr>
       = (Inr (PDict [(KStr ''pcnt'', PFloat (3 / 2)), (KStr ''rss'', PInt 8192000),
                      (KStr ''vms'', PFloat (1 / 8))]),
          \<lparr>pid = 4242, cached_process = Some (Process 4242)\<rparr>)"
    by (simp add: env_defs probe_defs act_defs op_defs)
  have s: "system (p_cpu_times listening_proc) = 1 / 8 \<and> vms (p_memory_info listening_proc) = 40960000"
    by (simp add: listening_proc_def)
  from memory_info_vms_is_system_cpu_time[OF b r]
  have "\<exists>info d. procs (linux_env\<lparr>getpid := 4243\<rparr>) 4242 = Some info
          \<and> fst ` set d = {KStr ''pcnt'', KStr ''rss'', KStr ''vms''}
          \<and> map_of d (KStr ''vms'') = Some (PFloat (system (p_cpu_times info)))"
    by blast
  with b r s show ?thesis by blast
qed

section \<open>Constructing a second inspector\<close>

text \<open>
  C9. When a capability probe fails, the first construction in an interpreter succeeds
  and leaves the class itself with fewer methods; a second construction on the class as
  the first one left it raises \<open>AttributeError\<close> for the method it tries to delete again
  (\<open>get_io_counters\<close> when I/O counters are unsupported, else \<open>get_cpu_info\<close>).
\<close>

theorem second_construction_raises:
  assumes "\<not> supports_iocounters e \<or> \<not> check_osx_perm e"
  shows "\<exists>self cls'. LazyPSUtil_init e LazyPSUtil_class p = (Inr self, cls')
           \<and> cls' \<subset> LazyPSUtil_class
           \<and> LazyPSUtil_init e cls' q
               = (Inl (AttributeError (if \<not> supports_iocounters e then ''get_io_counters''
                                         else ''get_cpu_info'')), cls')"
  by (intro exI[of _ "\<lparr>pid = p, cached_process = None\<rparr>"] exI[of _ "gated_class e"] conjI)
     (rule init_gated gated_class_smaller[OF assms] init_again[OF assms])+

text \<open>OS X without root, and a Darwin machine that has I/O counters.\<close>

theorem second_construction_raises_witness:
  "\<not> supports_iocounters osx_user_env
   \<and> (\<exists>self cls'. LazyPSUtil_init osx_user_env LazyPSUtil_class 4242 = (Inr self, cls')
         \<and> cls' \<subset> LazyPSUtil_class
         \<and> LazyPSUtil_init osx_user_env cls' 4242
             = (Inl (AttributeError ''get_io_counters''), cls'))
   \<and> supports_iocounters (linux_env\<lparr>sys_platform := ''darwin''\<rparr>)
   \<and> \<not> check_osx_perm (linux_env\<lparr>sys_platform := ''darwin''\<rparr>)
   \<and> (\<exists>self cls'. LazyPSUtil_init (linux_env\<lparr>sys_platform := ''darwin''\<rparr>) LazyPSUtil_class 4242 = (Inr self, cls')
         \<and> cls' \<subset> LazyPSUtil_class
         \<and> LazyPSUtil_init (linux_env\<lparr>sys_platform := ''darwin''\<rparr>) cls' 4242
             = (Inl (AttributeError ''get_cpu_info''), cls'))"
proof -
  have h1: "\<not> supports_iocounters osx_user_env"
    by (simp add: probe_defs env_defs)
  have h3: "supports_iocounters (linux_env\<lparr>sys_platform := ''darwin''\<rparr>)"
     "\<not> check_osx_perm (linux_env\<lparr>sys_platform := ''darwin''\<rparr>)"
    by (simp_all add: probe_defs env_defs)
  have a: "\<not> supports_iocounters osx_user_env \<or> \<not> check_osx_perm osx_user_env"
    using h1 by simp
  have b: "\<not> supports_iocounters (linux_env\<lparr>sys_platform := ''darwin''\<rparr>)
            \<or> \<not> check_osx_perm (linux_env\<lparr>sys_platform := ''darwin''\<rparr>)"
    using h3 by simp
  show ?thesis
    using second_construction_raises[OF a, of 4242 4242] second_construction_raises[OF b, of 4242 4242]
      h1 h3 by simp
qed

section \<open>Validation of the configuration\<close>

text \<open>
  C4. A configuration with a key outside net, io, cpu, mem, threads makes
  \<open>metlog_procinfo\<close> raise its \<open>SyntaxError\<close> with the world untouched: no child has
  been launched and the metlog client has not been called. A configuration with only
  recognized keys never raises that error.
\<close>

theorem unrecognized_key_is_rejected:
  "((\<exists>k\<in>fst ` set config. k \<notin> recognized) \<longrightarrow>
      (\<exists>left. left \<noteq> [] \<and> metlog_procinfo e w pid_arg config = (Inl (SyntaxError left), left, w)))
   \<and> (fst ` set config \<subseteq> recognized \<longrightarrow>
      (\<forall>left. fst (metlog_procinfo e w pid_arg config) \<noteq> Inl (SyntaxError left)))"
  using unrecognized_key_raises[of config e w pid_arg] recognized_keys_pass[of config e w pid_arg]
  by blast

text \<open>The configuration of the repository's own test, and one that asks for \<open>net\<close>.\<close>

theorem unrecognized_key_is_rejected_witness:
  "(\<exists>k\<in>fst ` set [(''thread_io'', True)]. k \<notin> recognized)
   \<and> metlog_procinfo linux_env quiet_world (Some 0) [(''thread_io'', True)]
       = (Inl (SyntaxError [(''thread_io'', True)]), [(''thread_io'', True)], quiet_world)
   \<and> fst ` set [(''net'', True)] \<subseteq> recognized
   \<and> fst (metlog_procinfo linux_env quiet_world None [(''net'', True)]) = Inr ()"
proof -
  have a: "\<exists>k\<in>fst ` set [(''thread_io'', True)]. k \<notin> recognized"
    by (simp add: leftover_def recognized_def)
  have b: "fst ` set [(''net'', True)] \<subseteq> recognized"
    by (simp add: leftover_def recognized_def)
  have c: "leftover [(''thread_io'', True)] = [(''thread_io'', True)]"
    by (simp add: leftover_def recognized_def)
  have d: "fst (metlog_procinfo linux_env quiet_world None [(''net'', True)]) = Inr ()"
    by (simp add: metlog_procinfo_unfold leftover_def recognized_def config_flag_def eval_defs)
  from unrecognized_key_is_rejected[of "[(''thread_io'', True)]" linux_env quiet_world "Some 0"] a
  obtain left where "metlog_procinfo linux_env quiet_world (Some 0) [(''thread_io'', True)]
                       = (Inl (SyntaxError left), left, quiet_world)" by blast
  moreover from this have "left = [(''thread_io'', True)]"
    using config_after[of linux_env quiet_world "Some 0" "[(''thread_io'', True)]"] c by simp
  ultimately show ?thesis using a b d by simp
qed

text \<open>
  C10. After any call of \<open>metlog_procinfo\<close> the caller's dictionary holds exactly its
  items with unrecognized keys, so none of the five recognized keys; when the call
  raised the configuration error the dictionary is not empty and is what the error
  reports.
\<close>

theorem config_is_mutated_in_place:
  "fst (snd (metlog_procinfo e w pid_arg config)) = leftover config
   \<and> fst ` set (fst (snd (metlog_procinfo e w pid_arg config))) \<inter> recognized = {}
   \<and> fst ` set (fst (snd (metlog_procinfo e w pid_arg config))) = fst ` set config - recognized
   \<and> ((\<exists>left. fst (metlog_procinfo e w pid_arg config) = Inl (SyntaxError left)) \<longrightarrow>
         fst (snd (metlog_procinfo e w pid_arg config)) \<noteq> []
       \<and> fst (metlog_procinfo e w pid_arg config)
            = Inl (SyntaxError (fst (snd (metlog_procinfo e w pid_arg config)))))"
proof (intro conjI impI)
  show c: "fst (snd (metlog_procinfo e w pid_arg config)) = leftover config"
    by (rule config_after)
  show "fst ` set (fst (snd (metlog_procinfo e w pid_arg config))) \<inter> recognized = {}"
    unfolding c leftover_def by auto
  show "fst ` set (fst (snd (metlog_procinfo e w pid_arg config))) = fst ` set config - recognized"
    unfolding c leftover_def by auto
  assume x: "\<exists>left. fst (metlog_procinfo e w pid_arg config) = Inl (SyntaxError left)"
  have n: "leftover config \<noteq> []"
  proof
    assume "leftover config = []"
    then have "fst ` set (leftover config) = {}" by simp
    then have "fst ` set config \<subseteq> recognized" unfolding leftover_keys by blast
    with recognized_keys_pass[of config e w pid_arg] x show False by blast
  qed
  then show "fst (snd (metlog_procinfo e w pid_arg config)) \<noteq> []" unfolding c .
  show "fst (metlog_procinfo e w pid_arg config)
            = Inl (SyntaxError (fst (snd (metlog_procinfo e w pid_arg config))))"
    unfolding c using n by (simp add: metlog_procinfo_unfold)
qed

text \<open>A configuration with one unrecognized key among recognized ones, and one without.\<close>

theorem config_is_mutated_in_place_witness:
  "fst (metlog_procinfo linux_env quiet_world (Some 0) [(''net'', True), (''thread_io'', True), (''mem'', False)])
       = Inl (SyntaxError [(''thread_io'', True)])
   \<and> fst (snd (metlog_procinfo linux_env quiet_world (Some 0)
                  [(''net'', True), (''thread_io'', True), (''mem'', False)]))
       = [(''thread_io'', True)]
   \<and> fst (snd (metlog_procinfo linux_env quiet_world None [(''net'', True), (''mem'', False)])) = []"
proof -
  have f: "leftover [(''net'', True), (''thread_io'', True), (''mem'', False)]
             = [(''thread_io'', True)]"
    by (simp add: leftover_def recognized_def)
  have g: "leftover [(''net'', True), (''mem'', False)] = []"
    by (simp add: leftover_def recognized_def)
  have x: "\<exists>left. fst (metlog_procinfo linux_env quiet_world (Some 0)
                          [(''net'', True), (''thread_io'', True), (''mem'', False)])
                   = Inl (SyntaxError left)"
    by (simp add: metlog_procinfo_unfold f)
  show ?thesis
    using config_is_mutated_in_place[of linux_env quiet_world "Some 0"
              "[(''net'', True), (''thread_io'', True), (''mem'', False)]"]
      config_is_mutated_in_place[of linux_env quiet_world None "[(''net'', True), (''mem'', False)]"]
      x unfolding f g by simp
qed

end
